theory Spec2Isabelle
  imports Main "HOL-Library.Word"
begin

section \<open>Go values\<close>

text \<open>
  The operator is built for 64-bit targets, where Go's \<^verbatim>\<open>int\<close> is a 64-bit two's
  complement integer: \<^verbatim>\<open>+\<close> wraps around and \<^verbatim>\<open>>\<close> compares the signed values.
\<close>

type_synonym go_int = "64 word"

text \<open>\<^verbatim>\<open>strconv.Itoa\<close>: base-10 rendering, with a leading minus sign for negative values.\<close>

definition digit_char :: "nat \<Rightarrow> char" where
  "digit_char n = ''0123456789'' ! (n mod 10)"

function nat_digits :: "nat \<Rightarrow> string" where
  "nat_digits n = (if n < 10 then [digit_char n] else nat_digits (n div 10) @ [digit_char n])"
  by pat_completeness auto
termination
  by (relation "measure id") auto

declare nat_digits.simps [simp del]

definition Itoa :: "go_int \<Rightarrow> string" where
  "Itoa w = (let i = sint w in
     if i < 0 then CHR ''-'' # nat_digits (nat (- i)) else nat_digits (nat i))"

text \<open>
  The lower case of one ASCII byte: the letters \<^verbatim>\<open>A\<close> to \<^verbatim>\<open>Z\<close> (bytes 65 to 90) move to
  \<^verbatim>\<open>a\<close> to \<^verbatim>\<open>z\<close>, every other byte stays.
\<close>

definition lower_char :: "char \<Rightarrow> char" where
  "lower_char c = (let n = (of_char c :: nat) in
     if 65 \<le> n \<and> n \<le> 90 then char_of (n + 32) else c)"

definition is_ascii :: "string \<Rightarrow> bool" where
  "is_ascii s = list_all (\<lambda>c. (of_char c :: nat) < 128) s"

text \<open>
  Go errors. \<^verbatim>\<open>errors.New\<close> and \<^verbatim>\<open>fmt.Errorf\<close> build an error from its message;
  \<^verbatim>\<open>*exec.ExitError\<close> is the error of a process that ran and exited with a non-zero code.
\<close>

datatype error = ErrorString string | ExitError go_int

fun Error_msg :: "error \<Rightarrow> string" where
  "Error_msg (ErrorString s) = s"
| "Error_msg (ExitError code) = ''exit status '' @ Itoa code"


section \<open>The node agent: compiling and applying a card's BBDev configuration\<close>

subsection \<open>Declarative card settings (API version 2)\<close>

text \<open>
  Modelled from the spec: the package \<^verbatim>\<open>sriovv2\<close>, which declares the structs of a card's
  settings, is missing. The spec gives the two variants of a BBDevConfig and their fields: the
  first generation with an uplink and a downlink section (bandwidth, load balance, a queue map
  of eight virtual functions), an FLR timeout and the physical-function-mode flag; the second
  generation with four queue-group specifications (number of queue groups, queues per group,
  depth), a bundle count, a maximal queue size and the same flag. The records carry the fields
  that \<^verbatim>\<open>pkg/daemon/bbdevconfig.go\<close> reads, under the names it reads them by; every numeric
  field is passed to \<^verbatim>\<open>strconv.Itoa\<close> there and is therefore a Go \<^verbatim>\<open>int\<close>. A nil pointer is
  \<open>None\<close>.
\<close>

record UplinkDownlinkQueues =
  VF0 :: go_int
  VF1 :: go_int
  VF2 :: go_int
  VF3 :: go_int
  VF4 :: go_int
  VF5 :: go_int
  VF6 :: go_int
  VF7 :: go_int

record UplinkDownlink =
  Bandwidth :: go_int
  LoadBalance :: go_int
  Queues :: UplinkDownlinkQueues

record N3000BBDevConfig =
  n3000_PFMode :: bool
  n3000_FLRTimeOut :: go_int
  n3000_Downlink :: UplinkDownlink
  n3000_Uplink :: UplinkDownlink

record QueueGroupConfig =
  NumQueueGroups :: go_int
  NumAqsPerGroups :: go_int
  AqDepthLog2 :: go_int

record ACC100BBDevConfig =
  acc100_PFMode :: bool
  NumVfBundles :: go_int
  MaxQueueSize :: go_int
  Uplink4G :: QueueGroupConfig
  Downlink4G :: QueueGroupConfig
  Uplink5G :: QueueGroupConfig
  Downlink5G :: QueueGroupConfig

record BBDevConfig =
  N3000 :: "N3000BBDevConfig option"
  ACC100 :: "ACC100BBDevConfig option"

record PhysicalFunctionConfigExt =
  pf_PCIAddress :: string
  pf_PFDriver :: string
  pf_BBDevConfig :: BBDevConfig

record SriovAccelerator =
  acc_DeviceID :: string

text \<open>
  Modelled from the spec: \<^verbatim>\<open>UplinkDownlinkQueues.String()\<close> is declared beside the struct, in
  the package that is missing. The spec describes it as ``an 8-tuple queue map rendered as a
  single delimited string''; the delimiter taken here is a comma.
\<close>

definition Queues_String :: "UplinkDownlinkQueues \<Rightarrow> string" where
  "Queues_String q =
     Itoa (VF0 q) @ '','' @ Itoa (VF1 q) @ '','' @ Itoa (VF2 q) @ '','' @ Itoa (VF3 q) @ '','' @
     Itoa (VF4 q) @ '','' @ Itoa (VF5 q) @ '','' @ Itoa (VF6 q) @ '','' @ Itoa (VF7 q)"

subsection \<open>The INI document under construction\<close>

text \<open>
  An \<^verbatim>\<open>ini.File\<close> as the generator uses it: an ordered list of named sections, each an
  ordered list of keys with their values. \<^verbatim>\<open>NewSections\<close> refuses an empty section name and
  leaves an existing section alone; \<^verbatim>\<open>Section(s).Key(k).SetValue(v)\<close> creates what is missing.
\<close>

type_synonym ini_section = "string \<times> (string \<times> string) list"
type_synonym ini = "ini_section list"

definition ini_Empty :: ini where
  "ini_Empty = []"

fun NewSection :: "ini \<Rightarrow> string \<Rightarrow> error + ini" where
  "NewSection cfg name =
     (if name = [] then Inl (ErrorString ''error creating new section: empty section name'')
      else if name \<in> fst ` set cfg then Inr cfg
      else Inr (cfg @ [(name, [])]))"

fun NewSections :: "ini \<Rightarrow> string list \<Rightarrow> error + ini" where
  "NewSections cfg [] = Inr cfg"
| "NewSections cfg (name # names) =
     (case NewSection cfg name of Inl e \<Rightarrow> Inl e | Inr cfg' \<Rightarrow> NewSections cfg' names)"

fun set_key :: "(string \<times> string) list \<Rightarrow> string \<Rightarrow> string \<Rightarrow> (string \<times> string) list" where
  "set_key [] k v = [(k, v)]"
| "set_key ((k', v') # kvs) k v = (if k' = k then (k, v) # kvs else (k', v') # set_key kvs k v)"

fun SetValue :: "ini \<Rightarrow> string \<Rightarrow> string \<Rightarrow> string \<Rightarrow> ini" where
  "SetValue [] s k v = [(s, [(k, v)])]"
| "SetValue ((s', kvs) # cfg) s k v =
     (if s' = s then (s, set_key kvs k v) # cfg else (s', kvs) # SetValue cfg s k v)"

subsection \<open>The machine the agent runs on\<close>

text \<open>
  The state the agent acts on: the files of the node, the log entries written so far (level,
  structured fields, message) and the command lines handed to the process-exec primitive.
\<close>

datatype log_level = InfoLevel | ErrorLevel

type_synonym log_entry = "log_level \<times> (string \<times> string) list \<times> string"

type_synonym filesystem = "string \<rightharpoonup> string"

record world =
  files :: filesystem
  logs :: "log_entry list"
  cmds :: "string list list"

text \<open>
  The collaborators outside of the repository, taken as parameters: the INI library's
  serialiser and file writer, \<^verbatim>\<open>os.Remove\<close>, the execution of an external process
  (\<^verbatim>\<open>cmd.Output()\<close>), \<^verbatim>\<open>filepath.Join\<close>, the two package-level values declared in files that
  are not at hand (\<^verbatim>\<open>workdir\<close> and the table \<^verbatim>\<open>supportedAccelerators.Devices\<close>), and the
  lower-casing of text that is not ASCII.
  Each of the effectful ones sees and returns the file system, and is otherwise unconstrained.
\<close>

record env =
  ini_WriteTo :: "ini \<Rightarrow> error + string"
  ini_SaveTo :: "ini \<Rightarrow> string \<Rightarrow> filesystem \<Rightarrow> error option \<times> filesystem"
  os_Remove :: "string \<Rightarrow> filesystem \<Rightarrow> error option \<times> filesystem"
  cmd_Output :: "string list \<Rightarrow> filesystem \<Rightarrow> (error + string) \<times> filesystem"
  filepath_Join :: "string \<Rightarrow> string \<Rightarrow> string"
  workdir :: string
  supportedDevices :: "string \<rightharpoonup> string"
  Map_unicode_ToLower :: "string \<Rightarrow> string"

text \<open>
  \<^verbatim>\<open>strings.ToLower\<close>. A Go string is a list of bytes, read as UTF-8. On a string of ASCII bytes
  only, the result is the string with each byte in lower case. On any other string Go decodes
  the code points and maps \<^verbatim>\<open>unicode.ToLower\<close> over them (\<^verbatim>\<open>strings.Map\<close>); that rests on the
  Unicode tables of Go's library and is the parameter \<open>Map_unicode_ToLower\<close> above. It can
  yield ASCII text from a string that is not ASCII: the lower case of U+0130 is \<^verbatim>\<open>i\<close>.
\<close>

definition ToLower :: "env \<Rightarrow> string \<Rightarrow> string" where
  "ToLower E s = (if is_ascii s then map lower_char s else Map_unicode_ToLower E s)"

definition log_entry :: "log_level \<Rightarrow> (string \<times> string) list \<Rightarrow> string \<Rightarrow> world \<Rightarrow> world" where
  "log_entry lvl flds msg w = w\<lparr>logs := logs w @ [(lvl, flds, msg)]\<rparr>"

subsection \<open>Constants of \<^verbatim>\<open>bbdevconfig.go\<close>\<close>

definition ul :: string where "ul = ''UL''"
definition dl :: string where "dl = ''DL''"
definition flr :: string where "flr = ''FLR''"
definition bandwidth :: string where "bandwidth = ''bandwidth''"
definition load_balance :: string where "load_balance = ''load_balance''"
definition vfqmap :: string where "vfqmap = ''vfqmap''"
definition flr_time_out :: string where "flr_time_out = ''flr_time_out''"
definition vfbundles :: string where "vfbundles = ''VFBUNDLES''"
definition maxqsize :: string where "maxqsize = ''MAXQSIZE''"
definition uplink4g :: string where "uplink4g = ''QUL4G''"
definition downlink4g :: string where "downlink4g = ''QDL4G''"
definition uplink5g :: string where "uplink5g = ''QUL5G''"
definition downlink5g :: string where "downlink5g = ''QDL5G''"
definition num_vf_bundles :: string where "num_vf_bundles = ''num_vf_bundles''"
definition max_queue_size :: string where "max_queue_size = ''max_queue_size''"
definition num_qgroups :: string where "num_qgroups = ''num_qgroups''"
definition num_aqs_per_groups :: string where "num_aqs_per_groups = ''num_aqs_per_groups''"
definition aq_depth_log2 :: string where "aq_depth_log2 = ''aq_depth_log2''"
definition maxQueueGroups :: go_int where "maxQueueGroups = 8"
definition mode :: string where "mode = ''MODE''"
definition pf_mode_en :: string where "pf_mode_en = ''pf_mode_en''"
definition pfConfigAppFilepath :: string where "pfConfigAppFilepath = ''/sriov_workdir/pf_bb_config''"


subsection \<open>Helpers of the package that are not at hand\<close>

text \<open>
  Modelled from the spec: \<^verbatim>\<open>runExecCmd\<close> and \<^verbatim>\<open>execAndSuppress\<close> are declared in another file
  of the package, which is missing. The spec treats process execution as an external primitive:
  a blocking, synchronous call that yields the output or an error. \<^verbatim>\<open>execAndSuppress\<close> takes a
  predicate on the error and ``interprets specific exit codes as non-errors'': an error the
  predicate accepts is not reported. Both record the command line they were given.
\<close>

definition runExecCmd :: "env \<Rightarrow> string list \<Rightarrow> world \<Rightarrow> (string \<times> error option) \<times> world" where
  "runExecCmd E args w =
     (let w1 = w\<lparr>cmds := cmds w @ [args]\<rparr>;
          (r, fs) = cmd_Output E args (files w1);
          w2 = w1\<lparr>files := fs\<rparr>
      in case r of
           Inl e \<Rightarrow> (('''', Some e), w2)
         | Inr out \<Rightarrow> ((out, None), w2))"

definition execAndSuppress ::
  "env \<Rightarrow> string list \<Rightarrow> (error \<Rightarrow> world \<Rightarrow> bool \<times> world) \<Rightarrow> world \<Rightarrow> (string \<times> error option) \<times> world"
where
  "execAndSuppress E args isExpected w =
     (let w1 = w\<lparr>cmds := cmds w @ [args]\<rparr>;
          (r, fs) = cmd_Output E args (files w1);
          w2 = w1\<lparr>files := fs\<rparr>
      in case r of
           Inl e \<Rightarrow>
             (let (ok, w3) = isExpected e w2
              in if ok then (('''', None), w3) else (('''', Some e), w3))
         | Inr out \<Rightarrow> ((out, None), w2))"

subsection \<open>\<^verbatim>\<open>bbdevconfig.go\<close>\<close>

definition logBBDevConfigFile :: "env \<Rightarrow> ini \<Rightarrow> world \<Rightarrow> error option \<times> world" where
  "logBBDevConfigFile E cfg w =
     (case ini_WriteTo E cfg of
        Inl err \<Rightarrow>
          (Some (ErrorString (''Unable to write config to log writer, '' @ Error_msg err)), w)
      | Inr b \<Rightarrow>
          (None, log_entry InfoLevel [(''generated BBDevConfig'', b)] ''logBBDevConfigFile'' w))"

definition bool_value :: "bool \<Rightarrow> string" where
  "bool_value b = (if b then ''1'' else ''0'')"

definition generateN3000BBDevConfigFile ::
  "env \<Rightarrow> N3000BBDevConfig option \<Rightarrow> string \<Rightarrow> world \<Rightarrow> error option \<times> world"
where
  "generateN3000BBDevConfigFile E nc' file w =
     (case nc' of
        None \<Rightarrow> (Some (ErrorString ''received nil N3000BBDevConfig''), w)
      | Some nc \<Rightarrow>
         (case NewSections ini_Empty [mode, ul, dl, flr] of
            Inl err \<Rightarrow> (Some (ErrorString ''Unable to create sections in bbdevconfig''), w)
          | Inr cfg0 \<Rightarrow>
             (let modeValue = bool_value (n3000_PFMode nc);
                  cfg1 = SetValue cfg0 mode pf_mode_en modeValue;
                  cfg2 = SetValue cfg1 ul bandwidth (Itoa (Bandwidth (n3000_Uplink nc)));
                  cfg3 = SetValue cfg2 ul load_balance (Itoa (LoadBalance (n3000_Uplink nc)));
                  cfg4 = SetValue cfg3 ul vfqmap (Queues_String (Queues (n3000_Uplink nc)));
                  cfg5 = SetValue cfg4 dl bandwidth (Itoa (Bandwidth (n3000_Downlink nc)));
                  cfg6 = SetValue cfg5 dl load_balance (Itoa (LoadBalance (n3000_Downlink nc)));
                  cfg7 = SetValue cfg6 dl vfqmap (Queues_String (Queues (n3000_Downlink nc)));
                  cfg = SetValue cfg7 flr flr_time_out (Itoa (n3000_FLRTimeOut nc))
              in case logBBDevConfigFile E cfg w of
                   (Some err, w1) \<Rightarrow> (Some err, w1)
                 | (None, w1) \<Rightarrow>
                    (case ini_SaveTo E cfg file (files w1) of
                       (Some err, fs) \<Rightarrow>
                         (Some (ErrorString (''Unable to write config to file: '' @ file)),
                          w1\<lparr>files := fs\<rparr>)
                     | (None, fs) \<Rightarrow> (None, w1\<lparr>files := fs\<rparr>)))))"

definition set_queue_group :: "ini \<Rightarrow> string \<Rightarrow> QueueGroupConfig \<Rightarrow> ini" where
  "set_queue_group cfg sec q =
     SetValue
       (SetValue
          (SetValue cfg sec num_qgroups (Itoa (NumQueueGroups q)))
          sec num_aqs_per_groups (Itoa (NumAqsPerGroups q)))
       sec aq_depth_log2 (Itoa (AqDepthLog2 q))"

definition generateACC100BBDevConfigFile ::
  "env \<Rightarrow> ACC100BBDevConfig option \<Rightarrow> string \<Rightarrow> world \<Rightarrow> error option \<times> world"
where
  "generateACC100BBDevConfigFile E nc' file w =
     (case nc' of
        None \<Rightarrow> (Some (ErrorString ''received nil ACC100BBDevConfig''), w)
      | Some nc \<Rightarrow>
         (let total4GQueueGroups =
                NumQueueGroups (Uplink4G nc) + NumQueueGroups (Downlink4G nc);
              total5GQueueGroups =
                NumQueueGroups (Uplink5G nc) + NumQueueGroups (Downlink5G nc);
              totalQueueGroups = total4GQueueGroups + total5GQueueGroups
          in if maxQueueGroups <s totalQueueGroups then
               (Some (ErrorString
                  (''Total number of requested queue groups (4G/5G) exceeds the maximum ('' @
                   Itoa maxQueueGroups @ '')'')), w)
             else
              (case NewSections ini_Empty
                      [mode, vfbundles, maxqsize, uplink4g, downlink4g, uplink5g, downlink5g] of
                 Inl err \<Rightarrow> (Some (ErrorString ''Unable to create sections in bbdevconfig''), w)
               | Inr cfg0 \<Rightarrow>
                  (let modeValue = bool_value (acc100_PFMode nc);
                       cfg1 = SetValue cfg0 mode pf_mode_en modeValue;
                       cfg2 = SetValue cfg1 vfbundles num_vf_bundles (Itoa (NumVfBundles nc));
                       cfg3 = SetValue cfg2 maxqsize max_queue_size (Itoa (MaxQueueSize nc));
                       cfg4 = set_queue_group cfg3 uplink4g (Uplink4G nc);
                       cfg5 = set_queue_group cfg4 downlink4g (Downlink4G nc);
                       cfg6 = set_queue_group cfg5 uplink5g (Uplink5G nc);
                       cfg = set_queue_group cfg6 downlink5g (Downlink5G nc)
                   in case logBBDevConfigFile E cfg w of
                        (Some err, w1) \<Rightarrow> (Some err, w1)
                      | (None, w1) \<Rightarrow>
                         (case ini_SaveTo E cfg file (files w1) of
                            (Some err, fs) \<Rightarrow>
                              (Some (ErrorString (''Unable to write config to file: '' @ file)),
                               w1\<lparr>files := fs\<rparr>)
                          | (None, fs) \<Rightarrow> (None, w1\<lparr>files := fs\<rparr>))))))"

definition generateBBDevConfigFile ::
  "env \<Rightarrow> BBDevConfig \<Rightarrow> string \<Rightarrow> world \<Rightarrow> error option \<times> world"
where
  "generateBBDevConfigFile E pfCfg file w =
     (if ACC100 pfCfg \<noteq> None then
        (case generateACC100BBDevConfigFile E (ACC100 pfCfg) file w of
           (Some err, w1) \<Rightarrow>
             (Some (ErrorString (''ACC100 config file creation failed, '' @ Error_msg err)), w1)
         | (None, w1) \<Rightarrow> (None, w1))
      else if N3000 pfCfg \<noteq> None then
        (case generateN3000BBDevConfigFile E (N3000 pfCfg) file w of
           (Some err, w1) \<Rightarrow>
             (Some (ErrorString (''N3000 config file creation failed, '' @ Error_msg err)), w1)
         | (None, w1) \<Rightarrow> (None, w1))
      else (Some (ErrorString ''Received nil configs''), w))"

record pfBBConfigController =
  sharedVfioToken :: string

definition runPFConfig ::
  "env \<Rightarrow> pfBBConfigController \<Rightarrow> string \<Rightarrow> string \<Rightarrow> string \<Rightarrow> string option \<Rightarrow> world
     \<Rightarrow> error option \<times> world"
where
  "runPFConfig E p deviceName cfgFilepath pciAddress token w =
     (if deviceName \<noteq> ''FPGA_LTE'' \<and> deviceName \<noteq> ''FPGA_5GNR'' \<and> deviceName \<noteq> ''ACC100'' then
        (Some (ErrorString (''incorrect deviceName for pf config: '' @ deviceName)), w)
      else
        (case token of
           None \<Rightarrow>
             (let ((out, err), w1) =
                    runExecCmd E
                      [pfConfigAppFilepath, deviceName, ''-c'', cfgFilepath, ''-p'', pciAddress] w
              in (err, w1))
         | Some tok \<Rightarrow>
             (let ((out, err), w1) =
                    runExecCmd E
                      [pfConfigAppFilepath, deviceName, ''-c'', cfgFilepath, ''-v'', tok,
                       ''-p'', pciAddress] w
              in (err, w1))))"

text \<open>
  The deferred \<^verbatim>\<open>os.Remove\<close> of the generated file, run when \<^verbatim>\<open>initializePfBBConfig\<close> returns
  after the file was generated.
\<close>

definition remove_bbdevConfigFile :: "env \<Rightarrow> string \<Rightarrow> world \<Rightarrow> world" where
  "remove_bbdevConfigFile E bbdevConfigFilepath w =
     (case os_Remove E bbdevConfigFilepath (files w) of
        (Some err, fs) \<Rightarrow>
          log_entry ErrorLevel [(''error'', Error_msg err), (''path'', bbdevConfigFilepath)]
            ''failed to remove old bbdev config file'' (w\<lparr>files := fs\<rparr>)
      | (None, fs) \<Rightarrow> w\<lparr>files := fs\<rparr>)"

definition initializePfBBConfig ::
  "env \<Rightarrow> pfBBConfigController \<Rightarrow> SriovAccelerator \<Rightarrow> PhysicalFunctionConfigExt \<Rightarrow> world
     \<Rightarrow> error option \<times> world"
where
  "initializePfBBConfig E p acc pf w =
     (if N3000 (pf_BBDevConfig pf) \<noteq> None \<or> ACC100 (pf_BBDevConfig pf) \<noteq> None then
        (let bbdevConfigFilepath = filepath_Join E (workdir E) (pf_PCIAddress pf @ ''.ini'')
         in case generateBBDevConfigFile E (pf_BBDevConfig pf) bbdevConfigFilepath w of
              (Some err, w1) \<Rightarrow>
                (Some err,
                 log_entry ErrorLevel [(''error'', Error_msg err), (''pci'', pf_PCIAddress pf)]
                   ''failed to create bbdev config file'' w1)
            | (None, w1) \<Rightarrow>
               (let deviceName =
                      (case supportedDevices E (acc_DeviceID acc) of
                         None \<Rightarrow> '''' | Some d \<Rightarrow> d);
                    token =
                      (if ToLower E (pf_PFDriver pf) = ToLower E ''vfio-pci''
                       then Some (sharedVfioToken p) else None)
                in case runPFConfig E p deviceName bbdevConfigFilepath (pf_PCIAddress pf) token w1 of
                     (Some err, w2) \<Rightarrow>
                       (Some err,
                        remove_bbdevConfigFile E bbdevConfigFilepath
                          (log_entry ErrorLevel
                             [(''error'', Error_msg err), (''pci'', pf_PCIAddress pf)]
                             ''failed to configure device's queues'' w2))
                   | (None, w2) \<Rightarrow> (None, remove_bbdevConfigFile E bbdevConfigFilepath w2)))
      else
        (None,
         log_entry InfoLevel []
           ''N3000 and ACC100 BBDevConfig are nil - queues will not be (re)configured'' w))"

text \<open>The closure handed to \<^verbatim>\<open>execAndSuppress\<close> by \<^verbatim>\<open>stopPfBBConfig\<close>.\<close>

definition pkill_isExpected :: "error \<Rightarrow> world \<Rightarrow> bool \<times> world" where
  "pkill_isExpected e w =
     (case e of
        ExitError code \<Rightarrow>
          (if code = 1
           then (True, log_entry InfoLevel [] ''ignoring errorCode(1) returned by pkill'' w)
           else (False, w))
      | ErrorString s \<Rightarrow> (False, w))"

definition stopPfBBConfig ::
  "env \<Rightarrow> pfBBConfigController \<Rightarrow> string \<Rightarrow> world \<Rightarrow> error option \<times> world"
where
  "stopPfBBConfig E p pciAddress w =
     (let ((out, err), w1) =
            execAndSuppress E
              [''chroot'', ''/host/'', ''pkill'', ''-9'', ''-f'', ''pf_bb_config.*'' @ pciAddress]
              pkill_isExpected w;
          sockFileToBeDeleted = ''/tmp/pf_bb_config.'' @ pciAddress @ ''.sock'';
          w2 = log_entry InfoLevel [(''applying-work-around'', ''SCSY-190446'')]
                 (''deleting'' @ sockFileToBeDeleted) w1
      in case os_Remove E sockFileToBeDeleted (files w2) of
           (Some err', fs) \<Rightarrow>
             (None,
              log_entry InfoLevel [(''error'', Error_msg err')]
                (''cannot remove ('' @ sockFileToBeDeleted @ '')) file: '' @ Error_msg err')
                (w2\<lparr>files := fs\<rparr>))
         | (None, fs) \<Rightarrow> (err, w2\<lparr>files := fs\<rparr>))"

section \<open>The cluster controller: from the cluster configuration to node configurations\<close>

subsection \<open>Declarative cluster settings (API version 1)\<close>

text \<open>
  The structs of \<^verbatim>\<open>sriovfecclusterconfig_types.go\<close>. \<^verbatim>\<open>UplinkDownlinkQueues\<close> and
  \<^verbatim>\<open>UplinkDownlink\<close> are the records declared above. Of the embedded \<^verbatim>\<open>TypeMeta\<close> and
  \<^verbatim>\<open>ObjectMeta\<close> the records keep the fields that the controller reads or writes.
\<close>

record BBDevConfig_v1 =
  NetworkType :: string
  PFMode :: bool
  FLRTimeOut :: go_int
  Downlink :: UplinkDownlink
  Uplink :: UplinkDownlink

record CardConfig =
  PCIAddress :: string
  VendorID :: string
  PFDeviceID :: string
  PFDriver :: string
  VFDeviceID :: string
  VFDriver :: string
  VFAmount :: go_int
  card_BBDevConfig :: BBDevConfig_v1

record NodeConfig =
  NodeName :: string
  OneCardConfigForAll :: bool
  Cards :: "CardConfig list"

record SriovFecClusterConfigSpec =
  OneNodeConfigForAll :: bool
  Nodes :: "NodeConfig list"

record SriovFecClusterConfigStatus =
  SyncStatus :: string
  LastSyncError :: string

record SriovFecClusterConfig =
  cc_Name :: string
  cc_Namespace :: string
  cc_Spec :: SriovFecClusterConfigSpec
  cc_Status :: SriovFecClusterConfigStatus

text \<open>
  Modelled from the spec: the declaration of \<^verbatim>\<open>SriovFecNodeConfig\<close> is missing. By the spec a
  node configuration is keyed by the node's name in a fixed namespace, holds a copy of the
  node's \<^verbatim>\<open>oneCardConfigForAll\<close> and cards, and has a status that belongs to the node agent. The
  record has the fields the controller sets (type, name, namespace, spec) and that status, whose
  content is opaque here.
\<close>

record SriovFecNodeConfigSpec =
  ncs_OneCardConfigForAll :: bool
  ncs_Cards :: "CardConfig list"

record SriovFecNodeConfig =
  nc_APIVersion :: string
  nc_Kind :: string
  nc_Name :: string
  nc_Namespace :: string
  nc_Spec :: SriovFecNodeConfigSpec
  nc_Status :: string

record Node =
  node_Name :: string

record NamespacedName =
  nn_Namespace :: string
  nn_Name :: string

subsection \<open>The control plane\<close>

text \<open>
  The control plane is an external collaborator. Its client is a parameter: one operation
  per primitive the controller calls, each reading and returning the state \<open>'cp\<close> of the control
  plane, and otherwise unconstrained. \<^verbatim>\<open>List\<close> yields an error together with the items it
  filled in, since \<^verbatim>\<open>removeOldNodeConfigs\<close> reads the items after a not-found error.
\<close>

datatype api_error = NotFound | ApiError string

fun IsNotFound :: "api_error \<Rightarrow> bool" where
  "IsNotFound NotFound = True"
| "IsNotFound (ApiError m) = False"

record 'cp client =
  client_GetClusterConfig :: "NamespacedName \<Rightarrow> 'cp \<Rightarrow> (api_error + SriovFecClusterConfig) \<times> 'cp"
  client_StatusUpdate :: "SriovFecClusterConfig \<Rightarrow> 'cp \<Rightarrow> api_error option \<times> 'cp"
  client_ListNodes :: "(string \<times> string) list \<Rightarrow> 'cp \<Rightarrow> (api_error + Node list) \<times> 'cp"
  client_ListNodeConfigs :: "'cp \<Rightarrow> (api_error option \<times> SriovFecNodeConfig list) \<times> 'cp"
  client_GetNodeConfig :: "NamespacedName \<Rightarrow> 'cp \<Rightarrow> (api_error + SriovFecNodeConfig) \<times> 'cp"
  client_Create :: "SriovFecNodeConfig \<Rightarrow> 'cp \<Rightarrow> api_error option \<times> 'cp"
  client_Update :: "SriovFecNodeConfig \<Rightarrow> 'cp \<Rightarrow> api_error option \<times> 'cp"
  client_Delete :: "SriovFecNodeConfig \<Rightarrow> 'cp \<Rightarrow> api_error option \<times> 'cp"

text \<open>
  The reconciler: the client and the package variable \<^verbatim>\<open>NAMESPACE\<close>, read from the process
  environment at start-up.
\<close>

record 'cp SriovFecClusterConfigReconciler =
  Client :: "'cp client"
  NAMESPACE :: string

definition quote :: string where
  "quote = [CHR 0x27]"

definition DEFAULT_CLUSTER_CONFIG_NAME :: string where
  "DEFAULT_CLUSTER_CONFIG_NAME = ''config''"

text \<open>
  What a reconciliation pass acts on: the control plane, the calls made against it so far,
  each with the error it returned, and the entries logged so far (the logger's name and bound
  values are left out of an entry).
\<close>

datatype call =
    Get_ClusterConfig NamespacedName
  | Status_Update SriovFecClusterConfig
  | List_Nodes "(string \<times> string) list"
  | List_NodeConfigs
  | Get_NodeConfig NamespacedName
  | Create SriovFecNodeConfig
  | Update SriovFecNodeConfig
  | Delete SriovFecNodeConfig

datatype logval = S string | I go_int | B bool | L "string list"

datatype logr_entry =
    LogInfo string "(string \<times> logval) list"
  | LogError api_error string "(string \<times> logval) list"

record 'cp rstate =
  cp :: 'cp
  calls :: "(call \<times> api_error option) list"
  rlogs :: "logr_entry list"

definition logr :: "logr_entry \<Rightarrow> 'cp rstate \<Rightarrow> 'cp rstate" where
  "logr e st = st\<lparr>rlogs := rlogs st @ [e]\<rparr>"

definition err_of :: "api_error + 'a \<Rightarrow> api_error option" where
  "err_of r = (case r of Inl e \<Rightarrow> Some e | Inr x \<Rightarrow> None)"

definition did :: "call \<Rightarrow> api_error option \<Rightarrow> 'cp \<Rightarrow> 'cp rstate \<Rightarrow> 'cp rstate" where
  "did c e cp' st = st\<lparr>cp := cp', calls := calls st @ [(c, e)]\<rparr>"

definition r_GetClusterConfig ::
  "'cp SriovFecClusterConfigReconciler \<Rightarrow> NamespacedName \<Rightarrow> 'cp rstate
     \<Rightarrow> (api_error + SriovFecClusterConfig) \<times> 'cp rstate"
where
  "r_GetClusterConfig r key st =
     (let (res, cp') = client_GetClusterConfig (Client r) key (cp st)
      in (res, did (Get_ClusterConfig key) (err_of res) cp' st))"

definition r_StatusUpdate ::
  "'cp SriovFecClusterConfigReconciler \<Rightarrow> SriovFecClusterConfig \<Rightarrow> 'cp rstate
     \<Rightarrow> api_error option \<times> 'cp rstate"
where
  "r_StatusUpdate r obj st =
     (let (e, cp') = client_StatusUpdate (Client r) obj (cp st)
      in (e, did (Status_Update obj) e cp' st))"

definition r_ListNodes ::
  "'cp SriovFecClusterConfigReconciler \<Rightarrow> (string \<times> string) list \<Rightarrow> 'cp rstate
     \<Rightarrow> (api_error + Node list) \<times> 'cp rstate"
where
  "r_ListNodes r labels st =
     (let (res, cp') = client_ListNodes (Client r) labels (cp st)
      in (res, did (List_Nodes labels) (err_of res) cp' st))"

definition r_ListNodeConfigs ::
  "'cp SriovFecClusterConfigReconciler \<Rightarrow> 'cp rstate
     \<Rightarrow> (api_error option \<times> SriovFecNodeConfig list) \<times> 'cp rstate"
where
  "r_ListNodeConfigs r st =
     (let ((e, items), cp') = client_ListNodeConfigs (Client r) (cp st)
      in ((e, items), did List_NodeConfigs e cp' st))"

definition r_GetNodeConfig ::
  "'cp SriovFecClusterConfigReconciler \<Rightarrow> NamespacedName \<Rightarrow> 'cp rstate
     \<Rightarrow> (api_error + SriovFecNodeConfig) \<times> 'cp rstate"
where
  "r_GetNodeConfig r key st =
     (let (res, cp') = client_GetNodeConfig (Client r) key (cp st)
      in (res, did (Get_NodeConfig key) (err_of res) cp' st))"

definition r_Create ::
  "'cp SriovFecClusterConfigReconciler \<Rightarrow> SriovFecNodeConfig \<Rightarrow> 'cp rstate
     \<Rightarrow> api_error option \<times> 'cp rstate"
where
  "r_Create r obj st =
     (let (e, cp') = client_Create (Client r) obj (cp st) in (e, did (Create obj) e cp' st))"

definition r_Update ::
  "'cp SriovFecClusterConfigReconciler \<Rightarrow> SriovFecNodeConfig \<Rightarrow> 'cp rstate
     \<Rightarrow> api_error option \<times> 'cp rstate"
where
  "r_Update r obj st =
     (let (e, cp') = client_Update (Client r) obj (cp st) in (e, did (Update obj) e cp' st))"

definition r_Delete ::
  "'cp SriovFecClusterConfigReconciler \<Rightarrow> SriovFecNodeConfig \<Rightarrow> 'cp rstate
     \<Rightarrow> api_error option \<times> 'cp rstate"
where
  "r_Delete r obj st =
     (let (e, cp') = client_Delete (Client r) obj (cp st) in (e, did (Delete obj) e cp' st))"

subsection \<open>\<^verbatim>\<open>renderNodeConfigs\<close>\<close>

text \<open>
  Indexing \<^verbatim>\<open>Spec.Nodes[0]\<close> on an empty list is a run-time panic in Go; it is a result of
  the model.
\<close>

datatype panic = IndexOutOfRange

text \<open>The loop of the branch taken when \<^verbatim>\<open>OneNodeConfigForAll\<close> is set.\<close>

fun render_for_all ::
  "SriovFecClusterConfig \<Rightarrow> Node list \<Rightarrow> SriovFecNodeConfig list \<Rightarrow> logr_entry list
     \<Rightarrow> (panic + SriovFecNodeConfig list) \<times> logr_entry list"
where
  "render_for_all clusterConfig [] nodeConfigs lg = (Inr nodeConfigs, lg)"
| "render_for_all clusterConfig (node # items) nodeConfigs lg =
     (case Nodes (cc_Spec clusterConfig) of
        [] \<Rightarrow> (Inl IndexOutOfRange, lg)
      | n0 # ns \<Rightarrow>
         (let nodeCfg =
                \<lparr>nc_APIVersion = ''v1'', nc_Kind = ''SriovFecNodeConfig'',
                 nc_Name = node_Name node, nc_Namespace = ''default'',
                 nc_Spec = \<lparr>ncs_OneCardConfigForAll = True, ncs_Cards = Cards n0\<rparr>,
                 nc_Status = ''''\<rparr>
          in render_for_all clusterConfig items (nodeConfigs @ [nodeCfg])
               (lg @ [LogInfo ''creating nodeConfig'' [(''nodeName'', S (node_Name node))]])))"

fun nodeHasAccelerator :: "Node list \<Rightarrow> string \<Rightarrow> bool" where
  "nodeHasAccelerator [] nodeName = False"
| "nodeHasAccelerator (node # items) nodeName =
     (if node_Name node = nodeName then True else nodeHasAccelerator items nodeName)"

text \<open>The loop of the other branch, over \<^verbatim>\<open>Spec.Nodes\<close>.\<close>

fun render_per_node ::
  "Node list \<Rightarrow> NodeConfig list \<Rightarrow> SriovFecNodeConfig list \<Rightarrow> logr_entry list
     \<Rightarrow> SriovFecNodeConfig list \<times> logr_entry list"
where
  "render_per_node items [] nodeConfigs lg = (nodeConfigs, lg)"
| "render_per_node items (nodeConfigSpec # rest) nodeConfigs lg =
     (if \<not> nodeHasAccelerator items (NodeName nodeConfigSpec) then
        render_per_node items rest nodeConfigs
          (lg @ [LogInfo
             ''received config for node that has no accelerator - NodeConfig spec will not be generated''
             [(''nodeName'', S (NodeName nodeConfigSpec))]])
      else
        (let nodeCfg =
               \<lparr>nc_APIVersion = ''v1'', nc_Kind = ''SriovFecNodeConfig'',
                nc_Name = NodeName nodeConfigSpec, nc_Namespace = ''default'',
                nc_Spec = \<lparr>ncs_OneCardConfigForAll = OneCardConfigForAll nodeConfigSpec,
                           ncs_Cards = Cards nodeConfigSpec\<rparr>,
                nc_Status = ''''\<rparr>
         in render_per_node items rest (nodeConfigs @ [nodeCfg])
              (lg @ [LogInfo ''creating nodeConfig''
                       [(''nodeName'', S (NodeName nodeConfigSpec))]])))"

definition renderNodeConfigs ::
  "SriovFecClusterConfig \<Rightarrow> Node list \<Rightarrow> 'cp rstate
     \<Rightarrow> (panic + SriovFecNodeConfig list) \<times> 'cp rstate"
where
  "renderNodeConfigs clusterConfig items st =
     (let st1 = logr (LogInfo ''rendering new node configs'' []) st
      in if OneNodeConfigForAll (cc_Spec clusterConfig) then
           (let (res, lg) = render_for_all clusterConfig items [] (rlogs st1)
            in (res, st1\<lparr>rlogs := lg\<rparr>))
         else
           (let (nodeConfigs, lg) =
                  render_per_node items (Nodes (cc_Spec clusterConfig)) [] (rlogs st1)
            in (Inr nodeConfigs, st1\<lparr>rlogs := lg\<rparr>)))"

subsection \<open>\<^verbatim>\<open>syncNodeConfigs\<close> and what it calls\<close>

definition updateOrCreateNodeConfig ::
  "'cp SriovFecClusterConfigReconciler \<Rightarrow> SriovFecNodeConfig \<Rightarrow> 'cp rstate
     \<Rightarrow> api_error option \<times> 'cp rstate"
where
  "updateOrCreateNodeConfig r nodeCfg st =
     (let st1 = logr (LogInfo ''syncing node config'' [(''name'', S (nc_Name nodeCfg))]) st
      in case r_GetNodeConfig r
                \<lparr>nn_Namespace = nc_Namespace nodeCfg, nn_Name = nc_Name nodeCfg\<rparr> st1 of
           (Inl err, st2) \<Rightarrow>
             (if IsNotFound err then
                (let st3 = logr (LogInfo ''old NodeConfig not found - creating''
                                   [(''name'', S (nc_Name nodeCfg))]) st2
                 in case r_Create r nodeCfg st3 of
                      (Some err', st4) \<Rightarrow>
                        (Some err',
                         logr (LogError err' ''failed to create NodeConfig''
                                 [(''name'', S (nc_Name nodeCfg))]) st4)
                    | (None, st4) \<Rightarrow> (None, st4))
              else
                (Some err,
                 logr (LogError err ''previous NodeConfig Get failed''
                         [(''name'', S (nc_Name nodeCfg))]) st2))
         | (Inr prev, st2) \<Rightarrow>
             (let st3 = logr (LogInfo ''previous NodeConfig found - updating''
                                [(''name'', S (nc_Name nodeCfg))]) st2
              in case r_Update r (prev\<lparr>nc_Spec := nc_Spec nodeCfg\<rparr>) st3 of
                   (Some err', st4) \<Rightarrow>
                     (Some err',
                      logr (LogError err' ''failed to update NodeConfig''
                              [(''name'', S (nc_Name nodeCfg))]) st4)
                 | (None, st4) \<Rightarrow> (None, st4)))"

text \<open>The inner loop of \<^verbatim>\<open>removeOldNodeConfigs\<close>: the value of \<^verbatim>\<open>deleteNC\<close> after it.\<close>

fun deleteNC :: "SriovFecNodeConfig list \<Rightarrow> SriovFecNodeConfig \<Rightarrow> bool" where
  "deleteNC [] nc = True"
| "deleteNC (nNC # rest) nc = (if nc_Name nc = nc_Name nNC then False else deleteNC rest nc)"

text \<open>The outer loop of \<^verbatim>\<open>removeOldNodeConfigs\<close>, over the listed items.\<close>

fun remove_loop ::
  "'cp SriovFecClusterConfigReconciler \<Rightarrow> SriovFecNodeConfig list \<Rightarrow> SriovFecNodeConfig list
     \<Rightarrow> 'cp rstate \<Rightarrow> api_error option \<times> 'cp rstate"
where
  "remove_loop r newNodeCfgs [] st = (None, st)"
| "remove_loop r newNodeCfgs (nc # items) st =
     (if deleteNC newNodeCfgs nc then
        (let st1 = logr (LogInfo ''deleting existing NodeConfig'' [(''name'', S (nc_Name nc))]) st
         in case r_Delete r nc st1 of
              (Some err, st2) \<Rightarrow>
                (Some err,
                 logr (LogError err ''failed to delete existing NodeConfig''
                         [(''name'', S (nc_Name nc))]) st2)
            | (None, st2) \<Rightarrow> remove_loop r newNodeCfgs items st2)
      else remove_loop r newNodeCfgs items st)"

definition removeOldNodeConfigs ::
  "'cp SriovFecClusterConfigReconciler \<Rightarrow> SriovFecNodeConfig list \<Rightarrow> 'cp rstate
     \<Rightarrow> api_error option \<times> 'cp rstate"
where
  "removeOldNodeConfigs r newNodeCfgs st =
     (case r_ListNodeConfigs r st of
        ((Some err, items), st1) \<Rightarrow>
          (if \<not> IsNotFound err then
             (Some err, logr (LogError err ''failed to get SriovFecNodeConfigList'' []) st1)
           else remove_loop r newNodeCfgs items st1)
      | ((None, items), st1) \<Rightarrow> remove_loop r newNodeCfgs items st1)"

text \<open>The loop of \<^verbatim>\<open>syncNodeConfigs\<close>, over the rendered node configurations.\<close>

fun sync_loop ::
  "'cp SriovFecClusterConfigReconciler \<Rightarrow> SriovFecNodeConfig list \<Rightarrow> 'cp rstate
     \<Rightarrow> api_error option \<times> 'cp rstate"
where
  "sync_loop r [] st = (None, st)"
| "sync_loop r (nodeCfg # nodeCfgs) st =
     (case updateOrCreateNodeConfig r nodeCfg st of
        (Some err, st1) \<Rightarrow> (Some err, st1)
      | (None, st1) \<Rightarrow> sync_loop r nodeCfgs st1)"

definition syncNodeConfigs ::
  "'cp SriovFecClusterConfigReconciler \<Rightarrow> SriovFecNodeConfig list \<Rightarrow> 'cp rstate
     \<Rightarrow> api_error option \<times> 'cp rstate"
where
  "syncNodeConfigs r nodeCfgs st =
     (let st1 = logr (LogInfo ''syncing node configs'' []) st
      in case removeOldNodeConfigs r nodeCfgs st1 of
           (Some err, st2) \<Rightarrow> (Some err, st2)
         | (None, st2) \<Rightarrow> sync_loop r nodeCfgs st2)"

subsection \<open>\<^verbatim>\<open>Reconcile\<close>\<close>

definition labelsToMatch :: "(string \<times> string) list" where
  "labelsToMatch =
     [(''node-role.kubernetes.io/worker'', ''''),
      (''beta.kubernetes.io/os'', ''linux''),
      (''feature.node.kubernetes.io/pci-8086.present'', ''true'')]"

definition getNodesWithIntelAccelerator ::
  "'cp SriovFecClusterConfigReconciler \<Rightarrow> 'cp rstate \<Rightarrow> (api_error + Node list) \<times> 'cp rstate"
where
  "getNodesWithIntelAccelerator r st = r_ListNodes r labelsToMatch st"

text \<open>The closure \<^verbatim>\<open>updateStatus\<close> of \<^verbatim>\<open>Reconcile\<close>.\<close>

definition updateStatus ::
  "'cp SriovFecClusterConfigReconciler \<Rightarrow> SriovFecClusterConfig \<Rightarrow> string \<Rightarrow> string
     \<Rightarrow> 'cp rstate \<Rightarrow> 'cp rstate"
where
  "updateStatus r clusterConfig status reason st =
     (case r_StatusUpdate r
             (clusterConfig\<lparr>cc_Status := \<lparr>SyncStatus = status, LastSyncError = reason\<rparr>\<rparr>) st of
        (Some err, st1) \<Rightarrow> logr (LogError err ''failed to update cluster config's status'' []) st1
      | (None, st1) \<Rightarrow> st1)"

text \<open>
  The loop of \<^verbatim>\<open>Reconcile\<close> that checks every node entry: the index of the first entry that
  asks for one card configuration for all cards without giving exactly one.
\<close>

fun first_bad_node :: "NodeConfig list \<Rightarrow> nat \<Rightarrow> nat option" where
  "first_bad_node [] idx = None"
| "first_bad_node (nodeConfig # rest) idx =
     (if OneCardConfigForAll nodeConfig \<and> length (Cards nodeConfig) \<noteq> 1 then Some idx
      else first_bad_node rest (Suc idx))"

text \<open>
  \<^verbatim>\<open>Reconcile\<close> returns \<^verbatim>\<open>reconcile.Result{}\<close> on every path, so the result of the model is the
  error alone, or the panic of \<^verbatim>\<open>renderNodeConfigs\<close>.
\<close>

definition Reconcile ::
  "'cp SriovFecClusterConfigReconciler \<Rightarrow> NamespacedName \<Rightarrow> 'cp rstate
     \<Rightarrow> (panic + api_error option) \<times> 'cp rstate"
where
  "Reconcile r req st =
     (let st0 = logr (LogInfo ''Reconciling SriovFecClusterConfig'' []) st
      in case r_GetClusterConfig r req st0 of
           (Inl err, st1) \<Rightarrow>
             (if IsNotFound err then
                (Inr None,
                 logr (LogInfo ''SriovFecClusterConfig not found''
                         [(''namespacedName'', S (nn_Namespace req @ ''/'' @ nn_Name req))]) st1)
              else (Inr (Some err), st1))
         | (Inr clusterConfig, st1) \<Rightarrow>
             (let nodes = Nodes (cc_Spec clusterConfig) in
              if nn_Namespace req \<noteq> NAMESPACE r \<or> nn_Name req \<noteq> DEFAULT_CLUSTER_CONFIG_NAME then
                (Inr None,
                 updateStatus r clusterConfig ''Ignored''
                   (''Only SriovFecClusterConfig with name '' @ quote @
                    DEFAULT_CLUSTER_CONFIG_NAME @ quote @ '' and namespace '' @ quote @
                    NAMESPACE r @ quote @ '' are handled'')
                   (logr (LogInfo
                      ''received ClusterConfig, but it not an expected one - it'll be ignored''
                      [(''expectedNamespace'', S (NAMESPACE r)),
                       (''expectedName'', S DEFAULT_CLUSTER_CONFIG_NAME)]) st1))
              else
               (let st2 = logr (LogInfo ''is one config for all nodes requested?''
                                  [(''oneNodeConfigForAll'',
                                    B (OneNodeConfigForAll (cc_Spec clusterConfig))),
                                   (''amount of node configs'', I (of_nat (length nodes)))]) st1
                in if OneNodeConfigForAll (cc_Spec clusterConfig) \<and> length nodes \<noteq> 1 then
                     (Inr None,
                      updateStatus r clusterConfig ''InvalidConfig''
                        (''OneNodeConfigForAll requested but amount of provided nodeConfigs is '' @
                         Itoa (of_nat (length nodes)) @ '' (should be 1)'')
                        (logr (LogInfo ''provided wrong amount of NodeConfigs - should be 1''
                                 [(''NodeConfigs amount'', I (of_nat (length nodes)))]) st2))
                   else if OneNodeConfigForAll (cc_Spec clusterConfig)
                           \<and> \<not> OneCardConfigForAll (nodes ! 0) then
                     (Inr None,
                      updateStatus r clusterConfig ''InvalidConfig''
                        ''OneNodeConfigForAll requested but OneCardConfigForAll is false. It must be true''
                        st2)
                   else
                    (case first_bad_node nodes 0 of
                       Some idx \<Rightarrow>
                         (Inr None,
                          updateStatus r clusterConfig ''InvalidConfig''
                            (''OneCardConfigForAll requested but amount of provided cardConfigs is '' @
                             Itoa (of_nat (length nodes)) @ '' (should be 1) for '' @
                             Itoa (of_nat idx) @ '' node on the list'')
                            st2)
                     | None \<Rightarrow>
                        (case getNodesWithIntelAccelerator r st2 of
                           (Inl err, st3) \<Rightarrow>
                             (Inr (Some err),
                              updateStatus r clusterConfig ''NfdFailure''
                                ''failed to obtain nodes with Intel accelerator - check logs''
                                (logr (LogError err
                                         ''failed to obtain nodes with Intel accelerator'' []) st3))
                         | (Inr nodeList, st3) \<Rightarrow>
                            (let st4 = logr (LogInfo ''nodes with intel accelerator''
                                               [(''nodes'', L (map node_Name nodeList))]) st3
                             in case renderNodeConfigs clusterConfig nodeList st4 of
                                  (Inl p, st5) \<Rightarrow> (Inl p, st5)
                                | (Inr nodeConfigs, st5) \<Rightarrow>
                                   (case syncNodeConfigs r nodeConfigs st5 of
                                      (Some err, st6) \<Rightarrow>
                                        (Inr (Some err),
                                         updateStatus r clusterConfig ''NodeConfigsCreationFailed''
                                           ''failed to create NodeConfigs - check logs''
                                           (logr (LogError err ''syncNodeConfigs failed'' []) st6))
                                    | (None, st6) \<Rightarrow>
                                        (Inr None,
                                         updateStatus r clusterConfig ''NodeConfigsCreated''
                                           '''' st6))))))))"

section \<open>Concrete machines and inputs\<close>

subsection \<open>A node\<close>

text \<open>
  A node on which every collaborator works: the serialiser writes one line per section header
  and per key, the file writer stores that text, \<^verbatim>\<open>os.Remove\<close> fails on a path that does not
  exist, and an external process exits with the code \<open>code\<close> (0 is success).
\<close>

fun key_lines :: "(string \<times> string) list \<Rightarrow> string" where
  "key_lines [] = []"
| "key_lines ((k, v) # kvs) = k @ '' = '' @ v @ [CHR 0x0A] @ key_lines kvs"

fun ini_text :: "ini \<Rightarrow> string" where
  "ini_text [] = []"
| "ini_text ((s, kvs) # cfg) = ''['' @ s @ '']'' @ [CHR 0x0A] @ key_lines kvs @ ini_text cfg"

text \<open>
  The mapping of \<^verbatim>\<open>unicode.ToLower\<close> over the strings used below: an ASCII letter moves to its
  lower case, the code point U+0130 (the bytes C4 B0 in UTF-8) becomes \<^verbatim>\<open>i\<close>, as Go's tables
  have it, and every other byte is kept.
\<close>

fun lower_dotted_I :: "string \<Rightarrow> string" where
  "lower_dotted_I [] = []"
| "lower_dotted_I [a] = [lower_char a]"
| "lower_dotted_I (a # b # s) =
     (if a = CHR 0xC4 \<and> b = CHR 0xB0 then CHR ''i'' # lower_dotted_I s
      else lower_char a # lower_dotted_I (b # s))"

definition node_env :: "go_int \<Rightarrow> env" where
  "node_env code =
     \<lparr>ini_WriteTo = (\<lambda>cfg. Inr (ini_text cfg)),
      ini_SaveTo = (\<lambda>cfg file fs. (None, fs(file \<mapsto> ini_text cfg))),
      os_Remove = (\<lambda>path fs.
         if fs path = None
         then (Some (ErrorString (''remove '' @ path @ '': no such file or directory'')), fs)
         else (None, fs(path := None))),
      cmd_Output = (\<lambda>args fs. (if code = 0 then Inr '''' else Inl (ExitError code), fs)),
      filepath_Join = (\<lambda>dir name. dir @ ''/'' @ name),
      workdir = ''/sriov_artifacts'',
      supportedDevices =
        [''0d8f'' \<mapsto> ''FPGA_5GNR'', ''5052'' \<mapsto> ''FPGA_LTE'', ''0d5c'' \<mapsto> ''ACC100''],
      Map_unicode_ToLower = lower_dotted_I\<rparr>"

definition empty_world :: world where
  "empty_world = \<lparr>files = Map.empty, logs = [], cmds = []\<rparr>"

definition queue_groups :: "go_int \<Rightarrow> QueueGroupConfig" where
  "queue_groups n = \<lparr>NumQueueGroups = n, NumAqsPerGroups = 16, AqDepthLog2 = 4\<rparr>"

text \<open>A second-generation configuration with the same number of queue groups in each direction.\<close>

definition acc100_with :: "go_int \<Rightarrow> ACC100BBDevConfig" where
  "acc100_with n =
     \<lparr>acc100_PFMode = False, NumVfBundles = 16, MaxQueueSize = 1024,
      Uplink4G = queue_groups n, Downlink4G = queue_groups n,
      Uplink5G = queue_groups n, Downlink5G = queue_groups n\<rparr>"

definition some_queues :: UplinkDownlinkQueues where
  "some_queues = \<lparr>VF0 = 16, VF1 = 16, VF2 = 0, VF3 = 0, VF4 = 0, VF5 = 0, VF6 = 0, VF7 = 0\<rparr>"

definition some_n3000 :: N3000BBDevConfig where
  "some_n3000 =
     \<lparr>n3000_PFMode = False, n3000_FLRTimeOut = 610,
      n3000_Downlink = \<lparr>Bandwidth = 3, LoadBalance = 128, Queues = some_queues\<rparr>,
      n3000_Uplink = \<lparr>Bandwidth = 3, LoadBalance = 128, Queues = some_queues\<rparr>\<rparr>"

definition some_pf :: "string \<Rightarrow> BBDevConfig \<Rightarrow> PhysicalFunctionConfigExt" where
  "some_pf driver cfg =
     \<lparr>pf_PCIAddress = ''0000:1d:00.0'', pf_PFDriver = driver, pf_BBDevConfig = cfg\<rparr>"

subsection \<open>A control plane\<close>

text \<open>
  A control plane held in memory: the stored cluster configurations, the nodes that carry the
  labels, the stored node configurations, and the error with which it answers a given call
  (\<open>None\<close>: the call is served).
\<close>

record store =
  clusterConfigs :: "SriovFecClusterConfig list"
  nodes :: "Node list"
  nodeConfigs :: "SriovFecNodeConfig list"
  refuses :: "call \<Rightarrow> api_error option"

definition same_key :: "SriovFecNodeConfig \<Rightarrow> SriovFecNodeConfig \<Rightarrow> bool" where
  "same_key a b = (nc_Namespace a = nc_Namespace b \<and> nc_Name a = nc_Name b)"

definition store_client :: "store client" where
  "store_client =
     \<lparr>client_GetClusterConfig = (\<lambda>key s.
         case refuses s (Get_ClusterConfig key) of
           Some e \<Rightarrow> (Inl e, s)
         | None \<Rightarrow>
            (case find (\<lambda>c. cc_Namespace c = nn_Namespace key \<and> cc_Name c = nn_Name key)
                    (clusterConfigs s) of
               None \<Rightarrow> (Inl NotFound, s)
             | Some c \<Rightarrow> (Inr c, s))),
      client_StatusUpdate = (\<lambda>obj s.
         case refuses s (Status_Update obj) of
           Some e \<Rightarrow> (Some e, s)
         | None \<Rightarrow>
            (None,
             s\<lparr>clusterConfigs :=
                  map (\<lambda>c. if cc_Namespace c = cc_Namespace obj \<and> cc_Name c = cc_Name obj
                            then c\<lparr>cc_Status := cc_Status obj\<rparr> else c)
                    (clusterConfigs s)\<rparr>)),
      client_ListNodes = (\<lambda>labels s.
         case refuses s (List_Nodes labels) of
           Some e \<Rightarrow> (Inl e, s)
         | None \<Rightarrow> (Inr (nodes s), s)),
      client_ListNodeConfigs = (\<lambda>s.
         case refuses s List_NodeConfigs of
           Some e \<Rightarrow> ((Some e, []), s)
         | None \<Rightarrow> ((None, nodeConfigs s), s)),
      client_GetNodeConfig = (\<lambda>key s.
         case refuses s (Get_NodeConfig key) of
           Some e \<Rightarrow> (Inl e, s)
         | None \<Rightarrow>
            (case find (\<lambda>c. nc_Namespace c = nn_Namespace key \<and> nc_Name c = nn_Name key)
                    (nodeConfigs s) of
               None \<Rightarrow> (Inl NotFound, s)
             | Some c \<Rightarrow> (Inr c, s))),
      client_Create = (\<lambda>obj s.
         case refuses s (Create obj) of
           Some e \<Rightarrow> (Some e, s)
         | None \<Rightarrow> (None, s\<lparr>nodeConfigs := nodeConfigs s @ [obj]\<rparr>)),
      client_Update = (\<lambda>obj s.
         case refuses s (Update obj) of
           Some e \<Rightarrow> (Some e, s)
         | None \<Rightarrow>
            (None,
             s\<lparr>nodeConfigs := map (\<lambda>c. if same_key c obj then obj else c) (nodeConfigs s)\<rparr>)),
      client_Delete = (\<lambda>obj s.
         case refuses s (Delete obj) of
           Some e \<Rightarrow> (Some e, s)
         | None \<Rightarrow> (None, s\<lparr>nodeConfigs := filter (\<lambda>c. \<not> same_key c obj) (nodeConfigs s)\<rparr>))\<rparr>"

definition store_reconciler :: "store SriovFecClusterConfigReconciler" where
  "store_reconciler = \<lparr>Client = store_client, NAMESPACE = ''vran''\<rparr>"

definition start :: "store \<Rightarrow> store rstate" where
  "start s = \<lparr>cp = s, calls = [], rlogs = []\<rparr>"

definition the_request :: NamespacedName where
  "the_request = \<lparr>nn_Namespace = ''vran'', nn_Name = ''config''\<rparr>"

definition some_card :: CardConfig where
  "some_card =
     \<lparr>PCIAddress = ''0000:1d:00.0'', VendorID = ''8086'', PFDeviceID = ''0d8f'',
      PFDriver = ''pci-pf-stub'', VFDeviceID = ''0d90'', VFDriver = ''vfio-pci'', VFAmount = 2,
      card_BBDevConfig =
        \<lparr>NetworkType = ''FPGA_5GNR'', PFMode = False, FLRTimeOut = 610,
         Downlink = \<lparr>Bandwidth = 3, LoadBalance = 128, Queues = some_queues\<rparr>,
         Uplink = \<lparr>Bandwidth = 3, LoadBalance = 128, Queues = some_queues\<rparr>\<rparr>\<rparr>"

definition node_entry :: "string \<Rightarrow> NodeConfig" where
  "node_entry name = \<lparr>NodeName = name, OneCardConfigForAll = True, Cards = [some_card]\<rparr>"

definition cluster_config :: "bool \<Rightarrow> NodeConfig list \<Rightarrow> SriovFecClusterConfig" where
  "cluster_config forAll entries =
     \<lparr>cc_Name = ''config'', cc_Namespace = ''vran'',
      cc_Spec = \<lparr>OneNodeConfigForAll = forAll, Nodes = entries\<rparr>,
      cc_Status = \<lparr>SyncStatus = '''', LastSyncError = ''''\<rparr>\<rparr>"

definition stored_nc :: "string \<Rightarrow> SriovFecNodeConfig" where
  "stored_nc name =
     \<lparr>nc_APIVersion = ''v1'', nc_Kind = ''SriovFecNodeConfig'', nc_Name = name,
      nc_Namespace = ''default'',
      nc_Spec = \<lparr>ncs_OneCardConfigForAll = True, ncs_Cards = [some_card]\<rparr>,
      nc_Status = ''''\<rparr>"

definition worker :: "string \<Rightarrow> Node" where
  "worker name = \<lparr>node_Name = name\<rparr>"

text \<open>A control plane that refuses to delete node configurations and serves every other call.\<close>

fun no_delete :: "call \<Rightarrow> api_error option" where
  "no_delete (Delete obj) = Some (ApiError ''delete refused'')"
| "no_delete c = None"

definition serves_all :: "call \<Rightarrow> api_error option" where
  "serves_all c = None"

text \<open>
  The stored node configurations are those of \<open>n1\<close> and \<open>n2\<close>; the cluster configuration
  declares \<open>n2\<close>, \<open>n4\<close> and \<open>n5\<close>; the nodes that carry the labels are \<open>n2\<close>, \<open>n3\<close> and
  \<open>n4\<close>.
\<close>

definition sample_store :: "(call \<Rightarrow> api_error option) \<Rightarrow> store" where
  "sample_store refusal =
     \<lparr>clusterConfigs =
        [cluster_config False [node_entry ''n2'', node_entry ''n4'', node_entry ''n5'']],
      nodes = [worker ''n2'', worker ''n3'', worker ''n4''],
      nodeConfigs = [stored_nc ''n1'', stored_nc ''n2''],
      refuses = refusal\<rparr>"

section \<open>Notions of the specification\<close>




text \<open>
  The calls of a pass that change the stored node configurations: deletions, and creations or
  updates. In a list of calls the deletions come first when no deletion follows a creation or
  an update.
\<close>

fun is_delete :: "call \<Rightarrow> bool" where
  "is_delete (Delete obj) = True"
| "is_delete c = False"

fun is_write :: "call \<Rightarrow> bool" where
  "is_write (Create obj) = True"
| "is_write (Update obj) = True"
| "is_write c = False"

fun deletes_first :: "call list \<Rightarrow> bool" where
  "deletes_first [] = True"
| "deletes_first (c # cs) = ((is_write c \<longrightarrow> \<not> list_ex is_delete cs) \<and> deletes_first cs)"

definition is_sync_call :: "call \<Rightarrow> bool" where
  "is_sync_call c = (is_write c \<or> is_delete c)"

section \<open>Properties of the node agent\<close>

lemmas bbdev_consts =
  ul_def dl_def flr_def bandwidth_def load_balance_def vfqmap_def flr_time_out_def vfbundles_def
  maxqsize_def uplink4g_def downlink4g_def uplink5g_def downlink5g_def num_vf_bundles_def
  max_queue_size_def num_qgroups_def num_aqs_per_groups_def aq_depth_log2_def
  mode_def pf_mode_en_def

lemmas generate_defs =
  generateBBDevConfigFile_def generateACC100BBDevConfigFile_def generateN3000BBDevConfigFile_def
  logBBDevConfigFile_def set_queue_group_def bool_value_def ini_Empty_def Queues_String_def
  log_entry_def Let_def

lemmas sample_defs =
  node_env_def empty_world_def acc100_with_def queue_groups_def some_n3000_def some_queues_def
  some_pf_def

lemmas Itoa_eval = Itoa_def nat_digits.simps digit_char_def

lemma Itoa_maxQueueGroups: "Itoa maxQueueGroups = ''8''"
  by (simp add: Itoa_eval maxQueueGroups_def)

subsection \<open>The capacity check\<close>

text \<open>
  The check as the code computes it: the three additions wrap around, and the comparison
  is on the signed value of the result.
\<close>

lemma capacity_check_wrapped:
  assumes "maxQueueGroups <s
             (NumQueueGroups (Uplink4G nc) + NumQueueGroups (Downlink4G nc)) +
             (NumQueueGroups (Uplink5G nc) + NumQueueGroups (Downlink5G nc))"
  shows "generateACC100BBDevConfigFile E (Some nc) file w =
           (Some (ErrorString
              ''Total number of requested queue groups (4G/5G) exceeds the maximum (8)''), w)"
  using assms by (simp add: generateACC100BBDevConfigFile_def Itoa_maxQueueGroups Let_def)

text \<open>The wrapped sum of four values is their sum whenever that sum is a 64-bit signed value.\<close>

lemma sint_sum4:
  fixes a b c d :: go_int
  assumes "- (2 ^ 63) \<le> sint a + sint b + sint c + sint d"
      and "sint a + sint b + sint c + sint d < 2 ^ 63"
  shows "sint ((a + b) + (c + d)) = sint a + sint b + sint c + sint d"
proof -
  have "(a + b) + (c + d) = word_of_int (sint a + sint b + sint c + sint d)"
    by simp
  then have "sint ((a + b) + (c + d)) = signed_take_bit 63 (sint a + sint b + sint c + sint d)"
    by (simp only: sint_sbintrunc') simp
  also have "\<dots> = sint a + sint b + sint c + sint d"
    using assms by (intro signed_take_bit_int_eq_self) simp_all
  finally show ?thesis .
qed

text \<open>
  C1, as the claim states it, fails: four values of \<open>2\<^sup>6\<^sup>2\<close> queue groups add up to \<open>2\<^sup>6\<^sup>4\<close>,
  which is more than 8, but the sum the code computes wraps around to 0. No error is
  returned and the artifact is written to the target path.
\<close>

theorem capacity_overflow_counterexample:
  "8 < sint (NumQueueGroups (Uplink4G (acc100_with 4611686018427387904))) +
       sint (NumQueueGroups (Downlink4G (acc100_with 4611686018427387904))) +
       sint (NumQueueGroups (Uplink5G (acc100_with 4611686018427387904))) +
       sint (NumQueueGroups (Downlink5G (acc100_with 4611686018427387904)))
   \<and> fst (generateBBDevConfigFile (node_env 0)
            \<lparr>N3000 = None, ACC100 = Some (acc100_with 4611686018427387904)\<rparr>
            ''/sriov_artifacts/0000:1d:00.0.ini'' empty_world) = None
   \<and> files (snd (generateBBDevConfigFile (node_env 0)
            \<lparr>N3000 = None, ACC100 = Some (acc100_with 4611686018427387904)\<rparr>
            ''/sriov_artifacts/0000:1d:00.0.ini'' empty_world))
        ''/sriov_artifacts/0000:1d:00.0.ini'' \<noteq> None"
  by (simp add: generate_defs sample_defs maxQueueGroups_def word_sless_alt bbdev_consts)

text \<open>
  C1, amended: for every second-generation (ACC100) configuration, if the sum of the four
  \<^verbatim>\<open>NumQueueGroups\<close> values exceeds 8 and is itself a value of Go's 64-bit \<^verbatim>\<open>int\<close> (it is
  below \<open>2\<^sup>6\<^sup>3\<close>), then compiling it returns the validation error, and the state of the node
  is the one before the call: no file is written at the target path or anywhere else, and
  nothing is logged, so no artifact content was built.
\<close>

theorem capacity_exceeded_rejected:
  assumes "ACC100 pfCfg = Some nc"
      and "8 < sint (NumQueueGroups (Uplink4G nc)) + sint (NumQueueGroups (Downlink4G nc)) +
               sint (NumQueueGroups (Uplink5G nc)) + sint (NumQueueGroups (Downlink5G nc))"
      and "sint (NumQueueGroups (Uplink4G nc)) + sint (NumQueueGroups (Downlink4G nc)) +
           sint (NumQueueGroups (Uplink5G nc)) + sint (NumQueueGroups (Downlink5G nc)) < 2 ^ 63"
  shows "generateBBDevConfigFile E pfCfg file w =
           (Some (ErrorString
              (''ACC100 config file creation failed, '' @
               ''Total number of requested queue groups (4G/5G) exceeds the maximum (8)'')), w)"
proof -
  have "sint ((NumQueueGroups (Uplink4G nc) + NumQueueGroups (Downlink4G nc)) +
              (NumQueueGroups (Uplink5G nc) + NumQueueGroups (Downlink5G nc))) =
          sint (NumQueueGroups (Uplink4G nc)) + sint (NumQueueGroups (Downlink4G nc)) +
          sint (NumQueueGroups (Uplink5G nc)) + sint (NumQueueGroups (Downlink5G nc))"
    using assms(2,3) by (intro sint_sum4) simp_all
  with assms(2) have "maxQueueGroups <s
      (NumQueueGroups (Uplink4G nc) + NumQueueGroups (Downlink4G nc)) +
      (NumQueueGroups (Uplink5G nc) + NumQueueGroups (Downlink5G nc))"
    by (simp add: word_sless_alt maxQueueGroups_def)
  from capacity_check_wrapped [OF this] assms(1) show ?thesis
    by (simp add: generateBBDevConfigFile_def)
qed

text \<open>The spec's example: three queue groups in each of the four directions, twelve in all.\<close>

theorem capacity_exceeded_rejected_witness:
  "8 < sint (NumQueueGroups (Uplink4G (acc100_with 3))) +
       sint (NumQueueGroups (Downlink4G (acc100_with 3))) +
       sint (NumQueueGroups (Uplink5G (acc100_with 3))) +
       sint (NumQueueGroups (Downlink5G (acc100_with 3)))
   \<and> generateBBDevConfigFile (node_env 0) \<lparr>N3000 = None, ACC100 = Some (acc100_with 3)\<rparr>
        ''/sriov_artifacts/0000:1d:00.0.ini'' empty_world =
       (Some (ErrorString
          (''ACC100 config file creation failed, '' @
           ''Total number of requested queue groups (4G/5G) exceeds the maximum (8)'')),
        empty_world)"
  using capacity_exceeded_rejected
          [of "\<lparr>N3000 = None, ACC100 = Some (acc100_with 3)\<rparr>" "acc100_with 3" "node_env 0"
              "''/sriov_artifacts/0000:1d:00.0.ini''" empty_world]
  by (simp add: acc100_with_def queue_groups_def)

subsection \<open>The choice of the variant\<close>

text \<open>
  C2, as the claim states it, fails where both variants are set: the generator returns no
  error and writes the artifact of the ACC100 variant.
\<close>

theorem both_variants_counterexample:
  "N3000 \<lparr>N3000 = Some some_n3000, ACC100 = Some (acc100_with 1)\<rparr> \<noteq> None
   \<and> ACC100 \<lparr>N3000 = Some some_n3000, ACC100 = Some (acc100_with 1)\<rparr> \<noteq> None
   \<and> fst (generateBBDevConfigFile (node_env 0)
            \<lparr>N3000 = Some some_n3000, ACC100 = Some (acc100_with 1)\<rparr>
            ''/sriov_artifacts/0000:1d:00.0.ini'' empty_world) = None
   \<and> files (snd (generateBBDevConfigFile (node_env 0)
            \<lparr>N3000 = Some some_n3000, ACC100 = Some (acc100_with 1)\<rparr>
            ''/sriov_artifacts/0000:1d:00.0.ini'' empty_world))
        ''/sriov_artifacts/0000:1d:00.0.ini'' \<noteq> None"
  by (simp add: generate_defs sample_defs maxQueueGroups_def word_sless_alt bbdev_consts)

text \<open>
  C2, amended: for every BBDevConfig passed to the generator, if both variants are nil the
  generator returns the error ``Received nil configs'' and leaves the node as it was; if both
  variants are set, the ACC100 variant is taken and the N3000 variant is ignored: the outcome
  is that of the same configuration with the N3000 variant nil.
\<close>

theorem variant_dispatch:
  "(N3000 pfCfg = None \<and> ACC100 pfCfg = None \<longrightarrow>
      generateBBDevConfigFile E pfCfg file w = (Some (ErrorString ''Received nil configs''), w))
   \<and> (N3000 pfCfg \<noteq> None \<and> ACC100 pfCfg \<noteq> None \<longrightarrow>
      generateBBDevConfigFile E pfCfg file w =
        generateBBDevConfigFile E (pfCfg\<lparr>N3000 := None\<rparr>) file w)"
  by (simp add: generateBBDevConfigFile_def)

theorem variant_dispatch_witness:
  "generateBBDevConfigFile (node_env 0) \<lparr>N3000 = None, ACC100 = None\<rparr>
      ''/sriov_artifacts/0000:1d:00.0.ini'' empty_world =
     (Some (ErrorString ''Received nil configs''), empty_world)
   \<and> generateBBDevConfigFile (node_env 0)
        \<lparr>N3000 = Some some_n3000, ACC100 = Some (acc100_with 1)\<rparr>
        ''/sriov_artifacts/0000:1d:00.0.ini'' empty_world =
     generateBBDevConfigFile (node_env 0) \<lparr>N3000 = None, ACC100 = Some (acc100_with 1)\<rparr>
        ''/sriov_artifacts/0000:1d:00.0.ini'' empty_world"
  using variant_dispatch
          [of "\<lparr>N3000 = None, ACC100 = None\<rparr>" "node_env 0"
              "''/sriov_artifacts/0000:1d:00.0.ini''" empty_world]
        variant_dispatch
          [of "\<lparr>N3000 = Some some_n3000, ACC100 = Some (acc100_with 1)\<rparr>" "node_env 0"
              "''/sriov_artifacts/0000:1d:00.0.ini''" empty_world]
  by simp

subsection \<open>A card without a configuration\<close>

text \<open>
  C10: for every card whose BBDevConfig has both variants nil, \<^verbatim>\<open>initializePfBBConfig\<close>
  returns success; it only writes one log entry, so the files of the node are the ones before
  the call (no artifact is generated) and no command line is issued (the external
  configuration tool is not invoked).
\<close>

theorem nil_configs_skipped:
  assumes "N3000 (pf_BBDevConfig pf) = None" and "ACC100 (pf_BBDevConfig pf) = None"
  shows "initializePfBBConfig E p acc pf w =
           (None,
            w\<lparr>logs := logs w @
               [(InfoLevel, [],
                 ''N3000 and ACC100 BBDevConfig are nil - queues will not be (re)configured'')]\<rparr>)
         \<and> files (snd (initializePfBBConfig E p acc pf w)) = files w
         \<and> cmds (snd (initializePfBBConfig E p acc pf w)) = cmds w"
  using assms by (simp add: initializePfBBConfig_def log_entry_def)

theorem nil_configs_skipped_witness:
  "fst (initializePfBBConfig (node_env 0) \<lparr>sharedVfioToken = ''token''\<rparr>
          \<lparr>acc_DeviceID = ''0d5c''\<rparr> (some_pf ''vfio-pci'' \<lparr>N3000 = None, ACC100 = None\<rparr>)
          empty_world) = None
   \<and> files (snd (initializePfBBConfig (node_env 0) \<lparr>sharedVfioToken = ''token''\<rparr>
          \<lparr>acc_DeviceID = ''0d5c''\<rparr> (some_pf ''vfio-pci'' \<lparr>N3000 = None, ACC100 = None\<rparr>)
          empty_world)) = Map.empty
   \<and> cmds (snd (initializePfBBConfig (node_env 0) \<lparr>sharedVfioToken = ''token''\<rparr>
          \<lparr>acc_DeviceID = ''0d5c''\<rparr> (some_pf ''vfio-pci'' \<lparr>N3000 = None, ACC100 = None\<rparr>)
          empty_world)) = []"
  using nil_configs_skipped
          [of "some_pf ''vfio-pci'' \<lparr>N3000 = None, ACC100 = None\<rparr>" "node_env 0"
              "\<lparr>sharedVfioToken = ''token''\<rparr>" "\<lparr>acc_DeviceID = ''0d5c''\<rparr>" empty_world]
  by (simp add: some_pf_def empty_world_def)

subsection \<open>The command line of the configuration tool\<close>




lemma is_ascii_vfio: "is_ascii ''vfio-pci''"
  by code_simp

lemma ToLower_vfio: "ToLower E ''vfio-pci'' = ''vfio-pci''"
proof -
  have "map lower_char ''vfio-pci'' = ''vfio-pci''"
    by code_simp
  with is_ascii_vfio show ?thesis
    by (simp only: ToLower_def if_True)
qed


text \<open>
  On a driver name that is not ASCII the comparison is decided by the lower case that Go's
  Unicode mapping gives it.
\<close>

lemma ToLower_eq_vfio_unicode:
  assumes "\<not> is_ascii a"
  shows "ToLower E a = ToLower E ''vfio-pci'' \<longleftrightarrow> Map_unicode_ToLower E a = ''vfio-pci''"
  using assms by (simp add: ToLower_vfio) (simp add: ToLower_def)

lemma logBBDevConfigFile_cmds: "cmds (snd (logBBDevConfigFile E cfg w)) = cmds w"
  by (simp add: logBBDevConfigFile_def log_entry_def split: sum.splits)












subsection \<open>Teardown\<close>

text \<open>What the kill step reports: exit code 1 is success, every other error is reported.\<close>

lemma kill_step_result:
  "snd (fst (execAndSuppress E args pkill_isExpected w)) =
     (case fst (cmd_Output E args (files w)) of
        Inl (ExitError code) \<Rightarrow> if code = 1 then None else Some (ExitError code)
      | Inl (ErrorString s) \<Rightarrow> Some (ErrorString s)
      | Inr out \<Rightarrow> None)"
  by (auto simp: execAndSuppress_def pkill_isExpected_def Let_def
           split: prod.splits sum.splits error.splits if_splits)

text \<open>
  The teardown reports success or the result of the kill step, so an exit code of 1 is a
  success of the teardown on every node.
\<close>

lemma stopPfBBConfig_result:
  "fst (stopPfBBConfig E p pciAddress w) = None
   \<or> fst (stopPfBBConfig E p pciAddress w) =
       snd (fst (execAndSuppress E
                   [''chroot'', ''/host/'', ''pkill'', ''-9'', ''-f'',
                    ''pf_bb_config.*'' @ pciAddress]
                   pkill_isExpected w))"
  by (simp add: stopPfBBConfig_def Let_def split: prod.splits option.splits)

lemma teardown_exit_code_1:
  assumes "fst (cmd_Output E
                  [''chroot'', ''/host/'', ''pkill'', ''-9'', ''-f'',
                   ''pf_bb_config.*'' @ pciAddress] (files w)) = Inl (ExitError 1)"
  shows "fst (stopPfBBConfig E p pciAddress w) = None"
  using stopPfBBConfig_result [of E p pciAddress w]
        kill_step_result [of E "[''chroot'', ''/host/'', ''pkill'', ''-9'', ''-f'',
                   ''pf_bb_config.*'' @ pciAddress]" w] assms
  by auto

text \<open>
  Where the socket file cannot be removed, \<^verbatim>\<open>stopPfBBConfig\<close> returns nil from inside the
  removal branch, whatever the kill step reported.
\<close>

lemma stopPfBBConfig_remove_fails:
  assumes "\<And>path fs. fst (os_Remove E path fs) \<noteq> None"
  shows "fst (stopPfBBConfig E p pciAddress w) = None"
proof -
  obtain r w1 where k:
    "execAndSuppress E
       [''chroot'', ''/host/'', ''pkill'', ''-9'', ''-f'', ''pf_bb_config.*'' @ pciAddress]
       pkill_isExpected w = (r, w1)"
    by (cases "execAndSuppress E
       [''chroot'', ''/host/'', ''pkill'', ''-9'', ''-f'', ''pf_bb_config.*'' @ pciAddress]
       pkill_isExpected w")
  let ?w2 = "log_entry InfoLevel [(''applying-work-around'', ''SCSY-190446'')]
               (''deleting'' @ ''/tmp/pf_bb_config.'' @ pciAddress @ ''.sock'') w1"
  obtain e fs where rm:
    "os_Remove E (''/tmp/pf_bb_config.'' @ pciAddress @ ''.sock'') (files ?w2) = (e, fs)"
    by (cases "os_Remove E (''/tmp/pf_bb_config.'' @ pciAddress @ ''.sock'') (files ?w2)")
  with assms [of "''/tmp/pf_bb_config.'' @ pciAddress @ ''.sock''" "files ?w2"]
  obtain err where "e = Some err" by auto
  with k rm show ?thesis
    by (cases r) (simp add: stopPfBBConfig_def Let_def)
qed

text \<open>
  C4 says that any exit code of the kill utility other than 0 and 1 makes the teardown return
  the error, and that the removal of the socket file never changes that outcome. The code at
  a concrete input: \<^verbatim>\<open>pkill\<close> exits with code 2 for the card at \<^verbatim>\<open>0000:1d:00.0\<close>. On a node
  without the socket file the removal fails and the teardown reports success; on a node that
  has the socket file the same teardown reports the exit error.
\<close>

theorem teardown_drops_kill_error:
  "fst (cmd_Output (node_env 2)
          [''chroot'', ''/host/'', ''pkill'', ''-9'', ''-f'', ''pf_bb_config.*0000:1d:00.0'']
          (files empty_world)) = Inl (ExitError 2)
   \<and> fst (stopPfBBConfig (node_env 2) \<lparr>sharedVfioToken = ''token''\<rparr> ''0000:1d:00.0''
            empty_world) = None
   \<and> fst (stopPfBBConfig (node_env 2) \<lparr>sharedVfioToken = ''token''\<rparr> ''0000:1d:00.0''
            (empty_world\<lparr>files := [''/tmp/pf_bb_config.0000:1d:00.0.sock'' \<mapsto> '''']\<rparr>)) =
       Some (ExitError 2)"
  by (simp add: stopPfBBConfig_def execAndSuppress_def pkill_isExpected_def node_env_def
        empty_world_def log_entry_def Let_def)


section \<open>Properties of the cluster controller\<close>

subsection \<open>Rendering\<close>

lemma nodeHasAccelerator_iff:
  "nodeHasAccelerator items nodeName \<longleftrightarrow> nodeName \<in> node_Name ` set items"
  by (induction items) auto

lemma render_for_all_result:
  assumes "Nodes (cc_Spec c) = n0 # ns"
  shows "fst (render_for_all c items objs lg) =
           Inr (objs @
                map (\<lambda>node.
                      \<lparr>nc_APIVersion = ''v1'', nc_Kind = ''SriovFecNodeConfig'',
                       nc_Name = node_Name node, nc_Namespace = ''default'',
                       nc_Spec = \<lparr>ncs_OneCardConfigForAll = True, ncs_Cards = Cards n0\<rparr>,
                       nc_Status = ''''\<rparr>) items)"
  using assms by (induction items arbitrary: objs lg) (simp_all add: Let_def)

lemma render_per_node_result:
  "fst (render_per_node items entries objs lg) =
     objs @
     map (\<lambda>e.
           \<lparr>nc_APIVersion = ''v1'', nc_Kind = ''SriovFecNodeConfig'',
            nc_Name = NodeName e, nc_Namespace = ''default'',
            nc_Spec = \<lparr>ncs_OneCardConfigForAll = OneCardConfigForAll e, ncs_Cards = Cards e\<rparr>,
            nc_Status = ''''\<rparr>)
       (filter (\<lambda>e. NodeName e \<in> node_Name ` set items) entries)"
  by (induction entries arbitrary: objs lg) (simp_all add: Let_def nodeHasAccelerator_iff)

lemma renderNodeConfigs_for_all:
  assumes "OneNodeConfigForAll (cc_Spec c)" and "Nodes (cc_Spec c) = n0 # ns"
  shows "fst (renderNodeConfigs c items st) =
           Inr (map (\<lambda>node.
                      \<lparr>nc_APIVersion = ''v1'', nc_Kind = ''SriovFecNodeConfig'',
                       nc_Name = node_Name node, nc_Namespace = ''default'',
                       nc_Spec = \<lparr>ncs_OneCardConfigForAll = True, ncs_Cards = Cards n0\<rparr>,
                       nc_Status = ''''\<rparr>) items)"
  using assms(1)
    render_for_all_result [OF assms(2), where items = items and objs = "[]"
      and lg = "rlogs (logr (LogInfo ''rendering new node configs'' []) st)"]
  by (simp add: renderNodeConfigs_def Let_def case_prod_beta)

lemma renderNodeConfigs_per_node:
  assumes "\<not> OneNodeConfigForAll (cc_Spec c)"
  shows "fst (renderNodeConfigs c items st) =
           Inr (map (\<lambda>e.
                      \<lparr>nc_APIVersion = ''v1'', nc_Kind = ''SriovFecNodeConfig'',
                       nc_Name = NodeName e, nc_Namespace = ''default'',
                       nc_Spec = \<lparr>ncs_OneCardConfigForAll = OneCardConfigForAll e,
                                  ncs_Cards = Cards e\<rparr>,
                       nc_Status = ''''\<rparr>)
                  (filter (\<lambda>e. NodeName e \<in> node_Name ` set items) (Nodes (cc_Spec c))))"
  using assms
    render_per_node_result [of items "Nodes (cc_Spec c)" "[]"
      "rlogs (logr (LogInfo ''rendering new node configs'' []) st)"]
  by (simp add: renderNodeConfigs_def Let_def case_prod_beta)

lemma render_for_all_cases:
  "fst (render_for_all c items objs lg) = Inr res \<Longrightarrow>
     (items = [] \<and> res = objs) \<or> (\<exists>n0 ns. Nodes (cc_Spec c) = n0 # ns)"
  by (cases items; cases "Nodes (cc_Spec c)") auto


text \<open>
  C6: with \<^verbatim>\<open>OneNodeConfigForAll\<close> set and a declared node entry \<open>n0\<close> at the head of \<^verbatim>\<open>Spec.Nodes\<close>,
  rendering returns one node configuration per node of the inventory, in the order of the
  inventory: each is named after its node and carries the card list of \<open>n0\<close> as it is. For an
  inventory of \<open>n\<close> nodes the output has length \<open>n\<close>.
\<close>

theorem uniform_render:
  assumes "OneNodeConfigForAll (cc_Spec c)" and "Nodes (cc_Spec c) = n0 # ns"
  shows "\<exists>objs. fst (renderNodeConfigs c items st) = Inr objs
           \<and> length objs = length items
           \<and> map nc_Name objs = map node_Name items
           \<and> (\<forall>obj \<in> set objs. ncs_Cards (nc_Spec obj) = Cards n0)
           \<and> objs = map (\<lambda>node.
                      \<lparr>nc_APIVersion = ''v1'', nc_Kind = ''SriovFecNodeConfig'',
                       nc_Name = node_Name node, nc_Namespace = ''default'',
                       nc_Spec = \<lparr>ncs_OneCardConfigForAll = True, ncs_Cards = Cards n0\<rparr>,
                       nc_Status = ''''\<rparr>) items"
  using renderNodeConfigs_for_all [OF assms, of items st] by (simp add: comp_def)

theorem uniform_render_witness:
  "OneNodeConfigForAll (cc_Spec (cluster_config True [node_entry ''any'']))
   \<and> (\<exists>objs. fst (renderNodeConfigs (cluster_config True [node_entry ''any''])
                    [worker ''n1'', worker ''n2'', worker ''n3'']
                    (start (sample_store serves_all))) = Inr objs
         \<and> length objs = 3
         \<and> map nc_Name objs = [''n1'', ''n2'', ''n3'']
         \<and> (\<forall>obj \<in> set objs. ncs_Cards (nc_Spec obj) = [some_card]))"
proof -
  have u: "OneNodeConfigForAll (cc_Spec (cluster_config True [node_entry ''any'']))"
    by (simp add: cluster_config_def)
  have n: "Nodes (cc_Spec (cluster_config True [node_entry ''any''])) = node_entry ''any'' # []"
    by (simp add: cluster_config_def)
  from uniform_render [OF u n, of "[worker ''n1'', worker ''n2'', worker ''n3'']"
                         "start (sample_store serves_all)"]
  obtain objs where
    "fst (renderNodeConfigs (cluster_config True [node_entry ''any''])
            [worker ''n1'', worker ''n2'', worker ''n3'']
            (start (sample_store serves_all))) = Inr objs"
    "length objs = length [worker ''n1'', worker ''n2'', worker ''n3'']"
    "map nc_Name objs = map node_Name [worker ''n1'', worker ''n2'', worker ''n3'']"
    "\<forall>obj \<in> set objs. ncs_Cards (nc_Spec obj) = Cards (node_entry ''any'')"
    by blast
  with u show ?thesis
    by (simp add: worker_def node_entry_def)
qed

text \<open>
  C7: without \<^verbatim>\<open>OneNodeConfigForAll\<close>, rendering returns normally, with the node configurations
  of exactly the entries of \<^verbatim>\<open>Spec.Nodes\<close> whose node name is in the inventory, in the order of
  the entries: the object of an entry is in the output if and only if the entry's node name is
  the name of a node of the inventory, and the entries after a dropped one are still rendered.
\<close>

theorem per_node_render:
  assumes "\<not> OneNodeConfigForAll (cc_Spec c)"
  shows "\<exists>objs. fst (renderNodeConfigs c items st) = Inr objs
           \<and> objs = map (\<lambda>e.
                      \<lparr>nc_APIVersion = ''v1'', nc_Kind = ''SriovFecNodeConfig'',
                       nc_Name = NodeName e, nc_Namespace = ''default'',
                       nc_Spec = \<lparr>ncs_OneCardConfigForAll = OneCardConfigForAll e,
                                  ncs_Cards = Cards e\<rparr>,
                       nc_Status = ''''\<rparr>)
                      (filter (\<lambda>e. NodeName e \<in> node_Name ` set items) (Nodes (cc_Spec c)))
           \<and> (\<forall>e \<in> set (Nodes (cc_Spec c)).
                 (\<lparr>nc_APIVersion = ''v1'', nc_Kind = ''SriovFecNodeConfig'',
                   nc_Name = NodeName e, nc_Namespace = ''default'',
                   nc_Spec = \<lparr>ncs_OneCardConfigForAll = OneCardConfigForAll e,
                              ncs_Cards = Cards e\<rparr>,
                   nc_Status = ''''\<rparr> \<in> set objs)
                 \<longleftrightarrow> NodeName e \<in> node_Name ` set items)
           \<and> (\<forall>obj \<in> set objs. nc_Name obj \<in> node_Name ` set items)"
  using renderNodeConfigs_per_node [OF assms, of items st] by auto

theorem per_node_render_witness:
  "\<not> OneNodeConfigForAll
        (cc_Spec (cluster_config False [node_entry ''n2'', node_entry ''n5'', node_entry ''n4'']))
   \<and> (\<exists>objs. fst (renderNodeConfigs
                    (cluster_config False [node_entry ''n2'', node_entry ''n5'', node_entry ''n4''])
                    [worker ''n2'', worker ''n3'', worker ''n4'']
                    (start (sample_store serves_all))) = Inr objs
         \<and> objs = [stored_nc ''n2'', stored_nc ''n4''])"
proof -
  let ?c = "cluster_config False [node_entry ''n2'', node_entry ''n5'', node_entry ''n4'']"
  have u: "\<not> OneNodeConfigForAll (cc_Spec ?c)"
    by (simp add: cluster_config_def)
  from per_node_render [OF u, of "[worker ''n2'', worker ''n3'', worker ''n4'']"
                          "start (sample_store serves_all)"]
  obtain objs where
    "fst (renderNodeConfigs ?c [worker ''n2'', worker ''n3'', worker ''n4'']
            (start (sample_store serves_all))) = Inr objs"
    "objs = map (\<lambda>e.
                      \<lparr>nc_APIVersion = ''v1'', nc_Kind = ''SriovFecNodeConfig'',
                       nc_Name = NodeName e, nc_Namespace = ''default'',
                       nc_Spec = \<lparr>ncs_OneCardConfigForAll = OneCardConfigForAll e,
                                  ncs_Cards = Cards e\<rparr>,
                       nc_Status = ''''\<rparr>)
                      (filter (\<lambda>e. NodeName e \<in>
                                 node_Name ` set [worker ''n2'', worker ''n3'', worker ''n4''])
                         (Nodes (cc_Spec ?c)))"
    by blast
  with u show ?thesis
    by (simp add: cluster_config_def worker_def node_entry_def stored_nc_def)
qed

text \<open>
  C9: every node configuration that rendering returns, in either mode, has the namespace
  \<^verbatim>\<open>default\<close> and the name of a node of the inventory; when \<^verbatim>\<open>OneNodeConfigForAll\<close> is set,
  its \<^verbatim>\<open>OneCardConfigForAll\<close> is true, whatever the cluster configuration declares.
\<close>

theorem rendered_objects:
  assumes "fst (renderNodeConfigs c items st) = Inr objs"
  shows "\<forall>obj \<in> set objs.
           nc_Namespace obj = ''default''
           \<and> nc_Name obj \<in> node_Name ` set items
           \<and> (OneNodeConfigForAll (cc_Spec c) \<longrightarrow> ncs_OneCardConfigForAll (nc_Spec obj))"
proof (cases "OneNodeConfigForAll (cc_Spec c)")
  case False
  from renderNodeConfigs_per_node [OF False, of items st] assms False show ?thesis by auto
next
  case True
  from assms True
  have r: "fst (render_for_all c items [] (rlogs (logr (LogInfo ''rendering new node configs'' []) st))) = Inr objs"
    by (simp add: renderNodeConfigs_def Let_def case_prod_beta)
  from render_for_all_cases [OF r] show ?thesis
  proof
    assume "items = [] \<and> objs = []"
    then show ?thesis by simp
  next
    assume "\<exists>n0 ns. Nodes (cc_Spec c) = n0 # ns"
    then obtain n0 ns where "Nodes (cc_Spec c) = n0 # ns" by blast
    from render_for_all_result [OF this, where items = items and objs = "[]"
      and lg = "rlogs (logr (LogInfo ''rendering new node configs'' []) st)"] r
    show ?thesis by auto
  qed
qed

text \<open>
  The declared entry asks for \<^verbatim>\<open>OneCardConfigForAll = false\<close>; the rendered objects have it
  true.
\<close>

theorem rendered_objects_witness:
  "fst (renderNodeConfigs
          (cluster_config True [\<lparr>NodeName = ''any'', OneCardConfigForAll = False,
                                  Cards = [some_card]\<rparr>])
          [worker ''n1'', worker ''n2''] (start (sample_store serves_all))) =
     Inr [stored_nc ''n1'', stored_nc ''n2'']
   \<and> nc_Namespace (stored_nc ''n2'') = ''default''
   \<and> nc_Name (stored_nc ''n2'') \<in> node_Name ` set [worker ''n1'', worker ''n2'']
   \<and> OneNodeConfigForAll
         (cc_Spec (cluster_config True [\<lparr>NodeName = ''any'', OneCardConfigForAll = False,
                                          Cards = [some_card]\<rparr>]))
   \<and> ncs_OneCardConfigForAll (nc_Spec (stored_nc ''n2''))"
proof -
  let ?c = "cluster_config True [\<lparr>NodeName = ''any'', OneCardConfigForAll = False,
                                   Cards = [some_card]\<rparr>]"
  have r: "fst (renderNodeConfigs ?c [worker ''n1'', worker ''n2'']
                  (start (sample_store serves_all))) =
             Inr [stored_nc ''n1'', stored_nc ''n2'']"
    by code_simp
  have u: "OneNodeConfigForAll (cc_Spec ?c)"
    by (simp add: cluster_config_def)
  have m: "stored_nc ''n2'' \<in> set [stored_nc ''n1'', stored_nc ''n2'']"
    by simp
  from rendered_objects [OF r, THEN bspec, OF m] u r show ?thesis
    by blast
qed

subsection \<open>The calls of \<^verbatim>\<open>syncNodeConfigs\<close>\<close>

lemma calls_logr [simp]: "calls (logr e st) = calls st"
  by (simp add: logr_def)

lemma cp_logr [simp]: "cp (logr e st) = cp st"
  by (simp add: logr_def)

lemma calls_did [simp]: "calls (did c e cp' st) = calls st @ [(c, e)]"
  by (simp add: did_def)

lemma r_Delete_calls:
  "r_Delete r obj st = (e, st') \<Longrightarrow> calls st' = calls st @ [(Delete obj, e)]"
  by (auto simp: r_Delete_def split: prod.splits)

lemma r_Create_calls:
  "r_Create r obj st = (e, st') \<Longrightarrow> calls st' = calls st @ [(Create obj, e)]"
  by (auto simp: r_Create_def split: prod.splits)

lemma r_Update_calls:
  "r_Update r obj st = (e, st') \<Longrightarrow> calls st' = calls st @ [(Update obj, e)]"
  by (auto simp: r_Update_def split: prod.splits)

lemma r_GetNodeConfig_calls:
  "r_GetNodeConfig r key st = (res, st') \<Longrightarrow>
     calls st' = calls st @ [(Get_NodeConfig key, err_of res)]"
  by (auto simp: r_GetNodeConfig_def split: prod.splits)

lemma r_ListNodeConfigs_calls:
  "r_ListNodeConfigs r st = ((e, items), st') \<Longrightarrow>
     calls st' = calls st @ [(List_NodeConfigs, e)]
     \<and> (e, items) = fst (client_ListNodeConfigs (Client r) (cp st))"
  by (auto simp: r_ListNodeConfigs_def split: prod.splits)

lemma r_StatusUpdate_calls:
  "r_StatusUpdate r obj st = (e, st') \<Longrightarrow> calls st' = calls st @ [(Status_Update obj, e)]"
  by (auto simp: r_StatusUpdate_def split: prod.splits)

lemma r_GetClusterConfig_calls:
  "r_GetClusterConfig r key st = (res, st') \<Longrightarrow>
     calls st' = calls st @ [(Get_ClusterConfig key, err_of res)]"
  by (auto simp: r_GetClusterConfig_def split: prod.splits)

lemma r_ListNodes_calls:
  "r_ListNodes r labels st = (res, st') \<Longrightarrow>
     calls st' = calls st @ [(List_Nodes labels, err_of res)]"
  by (auto simp: r_ListNodes_def split: prod.splits)

lemma deleteNC_iff: "deleteNC newNodeCfgs nc \<longleftrightarrow> nc_Name nc \<notin> nc_Name ` set newNodeCfgs"
  by (induction newNodeCfgs) auto

text \<open>The calls of the deletion loop.\<close>

lemma remove_loop_calls:
  "remove_loop r new items st = (err, st') \<Longrightarrow>
   \<exists>tr. calls st' = calls st @ tr
        \<and> (\<forall>x \<in> set tr. is_delete (fst x))
        \<and> (\<forall>c e. (c, Some e) \<in> set tr \<longrightarrow> err = Some e)
        \<and> (err = None \<longrightarrow> map fst tr = map Delete (filter (deleteNC new) items))"
proof (induction items arbitrary: st)
  case Nil
  then show ?case by simp
next
  case (Cons nc items)
  show ?case
  proof (cases "deleteNC new nc")
    case False
    with Cons.prems have "remove_loop r new items st = (err, st')" by simp
    from Cons.IH [OF this] False show ?thesis by simp
  next
    case True
    let ?st1 = "logr (LogInfo ''deleting existing NodeConfig'' [(''name'', S (nc_Name nc))]) st"
    obtain e st2 where d: "r_Delete r nc ?st1 = (e, st2)"
      by (cases "r_Delete r nc ?st1")
    from r_Delete_calls [OF d] have c2: "calls st2 = calls st @ [(Delete nc, e)]" by simp
    show ?thesis
    proof (cases e)
      case (Some a)
      with Cons.prems True d have "err = Some a" and "calls st' = calls st2"
        by (auto simp: Let_def)
      with c2 Some show ?thesis by simp
    next
      case None
      with Cons.prems True d have "remove_loop r new items st2 = (err, st')"
        by (simp add: Let_def)
      from Cons.IH [OF this] obtain tr where tr:
        "calls st' = calls st2 @ tr" "\<forall>x \<in> set tr. is_delete (fst x)"
        "\<forall>c e. (c, Some e) \<in> set tr \<longrightarrow> err = Some e"
        "err = None \<longrightarrow> map fst tr = map Delete (filter (deleteNC new) items)"
        by blast
      have "calls st' = calls st @ ((Delete nc, e) # tr)"
        using tr(1) c2 by simp
      moreover have "\<forall>x \<in> set ((Delete nc, e) # tr). is_delete (fst x)"
        using tr(2) by simp
      moreover have "\<forall>c e'. (c, Some e') \<in> set ((Delete nc, e) # tr) \<longrightarrow> err = Some e'"
        using tr(3) None by simp
      moreover have "err = None \<longrightarrow>
          map fst ((Delete nc, e) # tr) = map Delete (filter (deleteNC new) (nc # items))"
        using tr(4) True by simp
      ultimately show ?thesis by blast
    qed
  qed
qed

lemma removeOldNodeConfigs_calls:
  assumes "removeOldNodeConfigs r new st = (err, st')"
  shows "\<exists>e tr. calls st' = calls st @ (List_NodeConfigs, e) # tr
        \<and> (\<forall>x \<in> set tr. is_delete (fst x))
        \<and> (\<forall>c e. (c, Some e) \<in> set tr \<longrightarrow> err = Some e)
        \<and> (err = None \<longrightarrow>
             map fst tr =
               map Delete (filter (deleteNC new)
                             (snd (fst (client_ListNodeConfigs (Client r) (cp st))))))"
proof -
  obtain e items st1 where l: "r_ListNodeConfigs r st = ((e, items), st1)"
    by (cases "r_ListNodeConfigs r st") auto
  from r_ListNodeConfigs_calls [OF l]
  have c1: "calls st1 = calls st @ [(List_NodeConfigs, e)]"
    and it: "items = snd (fst (client_ListNodeConfigs (Client r) (cp st)))"
    by (auto simp: prod_eq_iff)
  show ?thesis
  proof (cases "\<exists>a. e = Some a \<and> \<not> IsNotFound a")
    case True
    with assms l have "err = e" "calls st' = calls st1"
      by (auto simp: removeOldNodeConfigs_def)
    with c1 True show ?thesis by auto
  next
    case False
    with assms l have "remove_loop r new items st1 = (err, st')"
      by (cases e) (auto simp: removeOldNodeConfigs_def)
    from remove_loop_calls [OF this] c1 it show ?thesis by auto
  qed
qed

text \<open>The calls of one update-or-create, and of the loop over the rendered objects.\<close>

lemma updateOrCreateNodeConfig_calls:
  assumes "updateOrCreateNodeConfig r nodeCfg st = (err, st')"
  shows "\<exists>tr. calls st' = calls st @ tr
        \<and> (\<forall>x \<in> set tr. \<not> is_delete (fst x))
        \<and> (\<forall>c e. (c, Some e) \<in> set tr \<and> is_write c \<longrightarrow> err = Some e)"
proof -
  let ?key = "\<lparr>nn_Namespace = nc_Namespace nodeCfg, nn_Name = nc_Name nodeCfg\<rparr>"
  let ?st1 = "logr (LogInfo ''syncing node config'' [(''name'', S (nc_Name nodeCfg))]) st"
  obtain res st2 where g: "r_GetNodeConfig r ?key ?st1 = (res, st2)"
    by (cases "r_GetNodeConfig r ?key ?st1")
  from r_GetNodeConfig_calls [OF g]
  have c2: "calls st2 = calls st @ [(Get_NodeConfig ?key, err_of res)]" by simp
  show ?thesis
  proof (cases res)
    case (Inl e)
    show ?thesis
    proof (cases "IsNotFound e")
      case False
      with assms g Inl have "calls st' = calls st2"
        by (auto simp: updateOrCreateNodeConfig_def Let_def)
      with c2 show ?thesis by simp
    next
      case True
      let ?st3 = "logr (LogInfo ''old NodeConfig not found - creating''
                          [(''name'', S (nc_Name nodeCfg))]) st2"
      obtain e' st4 where c: "r_Create r nodeCfg ?st3 = (e', st4)"
        by (cases "r_Create r nodeCfg ?st3")
      from r_Create_calls [OF c] have c4: "calls st4 = calls st2 @ [(Create nodeCfg, e')]"
        by simp
      from assms g Inl True c have "err = e'" "calls st' = calls st4"
        by (auto simp: updateOrCreateNodeConfig_def Let_def split: option.splits)
      with c2 c4 show ?thesis by auto
    qed
  next
    case (Inr prev)
    let ?st3 = "logr (LogInfo ''previous NodeConfig found - updating''
                        [(''name'', S (nc_Name nodeCfg))]) st2"
    let ?obj = "prev\<lparr>nc_Spec := nc_Spec nodeCfg\<rparr>"
    obtain e' st4 where u: "r_Update r ?obj ?st3 = (e', st4)"
      by (cases "r_Update r ?obj ?st3")
    from r_Update_calls [OF u] have c4: "calls st4 = calls st2 @ [(Update ?obj, e')]"
      by simp
    from assms g Inr u have "err = e'" "calls st' = calls st4"
      by (auto simp: updateOrCreateNodeConfig_def Let_def split: option.splits)
    with c2 c4 show ?thesis by auto
  qed
qed

lemma sync_loop_calls:
  "sync_loop r nodeCfgs st = (err, st') \<Longrightarrow>
   \<exists>tr. calls st' = calls st @ tr
        \<and> (\<forall>x \<in> set tr. \<not> is_delete (fst x))
        \<and> (\<forall>c e. (c, Some e) \<in> set tr \<and> is_write c \<longrightarrow> err = Some e)"
proof (induction nodeCfgs arbitrary: st)
  case Nil
  then show ?case by simp
next
  case (Cons nodeCfg nodeCfgs)
  obtain e st1 where u: "updateOrCreateNodeConfig r nodeCfg st = (e, st1)"
    by (cases "updateOrCreateNodeConfig r nodeCfg st")
  from updateOrCreateNodeConfig_calls [OF u] obtain tr1 where tr1:
    "calls st1 = calls st @ tr1" "\<forall>x \<in> set tr1. \<not> is_delete (fst x)"
    "\<forall>c e'. (c, Some e') \<in> set tr1 \<and> is_write c \<longrightarrow> e = Some e'"
    by blast
  show ?case
  proof (cases e)
    case (Some a)
    with Cons.prems u have "err = e" "st' = st1" by auto
    with tr1 show ?thesis by blast
  next
    case None
    with Cons.prems u have "sync_loop r nodeCfgs st1 = (err, st')" by simp
    from Cons.IH [OF this] obtain tr2 where tr2:
      "calls st' = calls st1 @ tr2" "\<forall>x \<in> set tr2. \<not> is_delete (fst x)"
      "\<forall>c e'. (c, Some e') \<in> set tr2 \<and> is_write c \<longrightarrow> err = Some e'"
      by blast
    have "calls st' = calls st @ (tr1 @ tr2)"
      using tr1(1) tr2(1) by simp
    moreover have "\<forall>x \<in> set (tr1 @ tr2). \<not> is_delete (fst x)"
      using tr1(2) tr2(2) by auto
    moreover have "\<forall>c e'. (c, Some e') \<in> set (tr1 @ tr2) \<and> is_write c \<longrightarrow> err = Some e'"
      using tr1(3) tr2(3) None by auto
    ultimately show ?thesis by blast
  qed
qed

lemma deleteNC_eq: "deleteNC new = (\<lambda>nc. nc_Name nc \<notin> nc_Name ` set new)"
  by (rule ext) (rule deleteNC_iff)

lemma is_delete_not_write: "is_delete c \<Longrightarrow> \<not> is_write c"
  by (cases c) simp_all

lemma deletes_first_append:
  "\<forall>c \<in> set xs. \<not> is_write c \<Longrightarrow> \<forall>c \<in> set ys. \<not> is_delete c \<Longrightarrow> deletes_first (xs @ ys)"
proof (induction xs)
  case Nil
  then show ?case by (induction ys) (auto simp: list_ex_iff)
next
  case (Cons x xs)
  then show ?case by simp
qed

lemma syncNodeConfigs_calls:
  assumes "syncNodeConfigs r new st = (err, st')"
  shows "\<exists>e ds us. calls st' = calls st @ (List_NodeConfigs, e) # ds @ us
        \<and> (\<forall>x \<in> set ds. is_delete (fst x))
        \<and> (\<forall>x \<in> set us. \<not> is_delete (fst x))
        \<and> (\<forall>c e. (c, Some e) \<in> set ds \<longrightarrow> err = Some e \<and> us = [])
        \<and> (\<forall>c e. (c, Some e) \<in> set us \<and> is_write c \<longrightarrow> err = Some e)
        \<and> (us \<noteq> [] \<or> err = None \<longrightarrow>
             (\<forall>x \<in> set ds. snd x = None) \<and>
             map fst ds =
               map Delete (filter (deleteNC new)
                             (snd (fst (client_ListNodeConfigs (Client r) (cp st))))))"
proof -
  let ?st1 = "logr (LogInfo ''syncing node configs'' []) st"
  obtain e1 st2 where rm: "removeOldNodeConfigs r new ?st1 = (e1, st2)"
    by (cases "removeOldNodeConfigs r new ?st1")
  from removeOldNodeConfigs_calls [OF rm] obtain e ds where ds:
    "calls st2 = calls st @ (List_NodeConfigs, e) # ds"
    "\<forall>x \<in> set ds. is_delete (fst x)"
    "\<forall>c e. (c, Some e) \<in> set ds \<longrightarrow> e1 = Some e"
    "e1 = None \<longrightarrow> map fst ds =
        map Delete (filter (deleteNC new) (snd (fst (client_ListNodeConfigs (Client r) (cp st)))))"
    by auto
  show ?thesis
  proof (cases e1)
    case (Some a)
    with assms rm have "err = e1" "st' = st2"
      by (auto simp: syncNodeConfigs_def Let_def)
    with ds Some have
      "calls st' = calls st @ (List_NodeConfigs, e) # ds @ []"
      "\<forall>c e. (c, Some e) \<in> set ds \<longrightarrow> err = Some e \<and> ([]::(call \<times> api_error option) list) = []"
      by auto
    with ds(2) \<open>err = e1\<close> Some show ?thesis
      by (intro exI [of _ e] exI [of _ ds] exI [of _ "[]"]) simp
  next
    case None
    with assms rm have "sync_loop r new st2 = (err, st')"
      by (simp add: syncNodeConfigs_def Let_def)
    from sync_loop_calls [OF this] obtain us where us:
      "calls st' = calls st2 @ us" "\<forall>x \<in> set us. \<not> is_delete (fst x)"
      "\<forall>c e. (c, Some e) \<in> set us \<and> is_write c \<longrightarrow> err = Some e"
      by blast
    have nofail: "\<forall>x \<in> set ds. snd x = None"
    proof
      fix x assume "x \<in> set ds"
      with ds(3) None show "snd x = None"
        by (cases x; cases "snd x") auto
    qed
    then have "\<forall>c e. (c, Some e) \<in> set ds \<longrightarrow> err = Some e \<and> us = []"
      by force
    with ds us None nofail show ?thesis
      by (intro exI [of _ e] exI [of _ ds] exI [of _ us]) simp
  qed
qed


text \<open>
  C5: the calls that \<^verbatim>\<open>syncNodeConfigs\<close> makes against the control plane. No deletion comes
  after a creation or an update. If a deletion fails, the pass returns an error and has
  created and updated nothing. If anything was created or updated, or the pass succeeded, the
  deletions made are those of all the listed node configurations whose name is not the name
  of a rendered one, in the order of the list, and every one of them succeeded.
\<close>

theorem deletions_before_writes:
  assumes "syncNodeConfigs r nodeCfgs st = (err, st')"
  shows "\<exists>tr. calls st' = calls st @ tr
     \<and> deletes_first (map fst tr)
     \<and> ((\<exists>x \<in> set tr. is_delete (fst x) \<and> snd x \<noteq> None) \<longrightarrow>
          err \<noteq> None \<and> \<not> list_ex is_write (map fst tr))
     \<and> (list_ex is_write (map fst tr) \<or> err = None \<longrightarrow>
          filter (\<lambda>x. is_delete (fst x)) tr =
            map (\<lambda>nc. (Delete nc, None))
              (filter (\<lambda>nc. nc_Name nc \<notin> nc_Name ` set nodeCfgs)
                 (snd (fst (client_ListNodeConfigs (Client r) (cp st))))))"
proof -
  from syncNodeConfigs_calls [OF assms] obtain e ds us where t:
    "calls st' = calls st @ (List_NodeConfigs, e) # ds @ us"
    "\<forall>x \<in> set ds. is_delete (fst x)"
    "\<forall>x \<in> set us. \<not> is_delete (fst x)"
    "\<forall>c e. (c, Some e) \<in> set ds \<longrightarrow> err = Some e \<and> us = []"
    "\<forall>c e. (c, Some e) \<in> set us \<and> is_write c \<longrightarrow> err = Some e"
    "us \<noteq> [] \<or> err = None \<longrightarrow>
       (\<forall>x \<in> set ds. snd x = None) \<and>
       map fst ds = map Delete (filter (deleteNC nodeCfgs)
                      (snd (fst (client_ListNodeConfigs (Client r) (cp st)))))"
    by blast
  let ?tr = "(List_NodeConfigs, e) # ds @ us"
  have nw: "\<forall>c \<in> set (List_NodeConfigs # map fst ds). \<not> is_write c"
    using t(2) by (auto dest: is_delete_not_write)
  have "deletes_first ((List_NodeConfigs # map fst ds) @ map fst us)"
    using nw t(3) by (intro deletes_first_append) auto
  then have 1: "deletes_first (map fst ?tr)" by simp
  have 2: "(\<exists>x \<in> set ?tr. is_delete (fst x) \<and> snd x \<noteq> None) \<longrightarrow>
             err \<noteq> None \<and> \<not> list_ex is_write (map fst ?tr)"
  proof
    assume "\<exists>x \<in> set ?tr. is_delete (fst x) \<and> snd x \<noteq> None"
    then obtain c a where "(c, Some a) \<in> set ?tr" "is_delete c" by force
    with t(3) have "(c, Some a) \<in> set ds" by auto
    with t(4) have "err = Some a" "us = []" by blast+
    with nw show "err \<noteq> None \<and> \<not> list_ex is_write (map fst ?tr)"
      by (auto simp: list_ex_iff)
  qed
  have fd: "filter (\<lambda>x. is_delete (fst x)) ?tr = ds"
    using t(2,3) by (simp add: filter_id_conv)
  have 3: "list_ex is_write (map fst ?tr) \<or> err = None \<longrightarrow>
          filter (\<lambda>x. is_delete (fst x)) ?tr =
            map (\<lambda>nc. (Delete nc, None))
              (filter (\<lambda>nc. nc_Name nc \<notin> nc_Name ` set nodeCfgs)
                 (snd (fst (client_ListNodeConfigs (Client r) (cp st)))))"
  proof
    assume "list_ex is_write (map fst ?tr) \<or> err = None"
    with nw have "us \<noteq> [] \<or> err = None"
      by (auto simp: list_ex_iff)
    with t(6) have a: "\<forall>x \<in> set ds. snd x = None"
      and b: "map fst ds = map Delete (filter (deleteNC nodeCfgs)
                      (snd (fst (client_ListNodeConfigs (Client r) (cp st)))))"
      by blast+
    have "ds = map (\<lambda>c. (c, None)) (map fst ds)"
      using a by (induction ds) (auto simp: prod_eq_iff)
    also have "\<dots> = map (\<lambda>nc. (Delete nc, None)) (filter (deleteNC nodeCfgs)
                      (snd (fst (client_ListNodeConfigs (Client r) (cp st)))))"
      unfolding b by simp
    finally show "filter (\<lambda>x. is_delete (fst x)) ?tr =
            map (\<lambda>nc. (Delete nc, None))
              (filter (\<lambda>nc. nc_Name nc \<notin> nc_Name ` set nodeCfgs)
                 (snd (fst (client_ListNodeConfigs (Client r) (cp st)))))"
      unfolding fd by (simp add: deleteNC_eq)
  qed
  from t(1) 1 2 3 show ?thesis by blast
qed

text \<open>
  On the sample control plane the rendered set has \<open>n2\<close> and \<open>n4\<close>, and \<open>n1\<close> is stored
  but not rendered: it is deleted first, then \<open>n2\<close> is updated and \<open>n4\<close> is created.
\<close>

theorem deletions_before_writes_witness:
  "fst (syncNodeConfigs store_reconciler [stored_nc ''n2'', stored_nc ''n4'']
          (start (sample_store serves_all))) = None
   \<and> (\<exists>tr. calls (snd (syncNodeConfigs store_reconciler [stored_nc ''n2'', stored_nc ''n4'']
                          (start (sample_store serves_all)))) = [] @ tr
         \<and> deletes_first (map fst tr)
         \<and> list_ex is_write (map fst tr)
         \<and> filter (\<lambda>x. is_delete (fst x)) tr = [(Delete (stored_nc ''n1''), None)])"
proof -
  let ?run = "syncNodeConfigs store_reconciler [stored_nc ''n2'', stored_nc ''n4'']
                (start (sample_store serves_all))"
  have e: "fst ?run = None"
    by code_simp
  have w: "list_ex is_write (map fst (calls (snd ?run)))"
    by code_simp
  have s: "map (\<lambda>nc. (Delete nc, None :: api_error option))
             (filter (\<lambda>nc. nc_Name nc \<notin> nc_Name ` set [stored_nc ''n2'', stored_nc ''n4''])
                (snd (fst (client_ListNodeConfigs (Client store_reconciler)
                             (cp (start (sample_store serves_all))))))) =
           [(Delete (stored_nc ''n1''), None)]"
    by code_simp
  have c: "calls (start (sample_store serves_all)) = []"
    by (simp add: start_def)
  have "\<exists>tr. calls (snd ?run) = calls (start (sample_store serves_all)) @ tr
     \<and> deletes_first (map fst tr)
     \<and> ((\<exists>x \<in> set tr. is_delete (fst x) \<and> snd x \<noteq> None) \<longrightarrow>
          fst ?run \<noteq> None \<and> \<not> list_ex is_write (map fst tr))
     \<and> (list_ex is_write (map fst tr) \<or> fst ?run = None \<longrightarrow>
          filter (\<lambda>x. is_delete (fst x)) tr =
            map (\<lambda>nc. (Delete nc, None))
              (filter (\<lambda>nc. nc_Name nc \<notin> nc_Name ` set [stored_nc ''n2'', stored_nc ''n4''])
                 (snd (fst (client_ListNodeConfigs (Client store_reconciler)
                              (cp (start (sample_store serves_all))))))))"
    by (rule deletions_before_writes [OF prod.collapse [symmetric]])
  then show ?thesis
  proof (elim exE conjE)
    fix tr
    assume t: "calls (snd ?run) = calls (start (sample_store serves_all)) @ tr"
      and f: "deletes_first (map fst tr)"
      and a: "list_ex is_write (map fst tr) \<or> fst ?run = None \<longrightarrow>
          filter (\<lambda>x. is_delete (fst x)) tr =
            map (\<lambda>nc. (Delete nc, None))
              (filter (\<lambda>nc. nc_Name nc \<notin> nc_Name ` set [stored_nc ''n2'', stored_nc ''n4''])
                 (snd (fst (client_ListNodeConfigs (Client store_reconciler)
                              (cp (start (sample_store serves_all)))))))"
    from t c have t': "calls (snd ?run) = [] @ tr" by simp
    with w have w': "list_ex is_write (map fst tr)" by simp
    from a e have "filter (\<lambda>x. is_delete (fst x)) tr =
            map (\<lambda>nc. (Delete nc, None))
              (filter (\<lambda>nc. nc_Name nc \<notin> nc_Name ` set [stored_nc ''n2'', stored_nc ''n4''])
                 (snd (fst (client_ListNodeConfigs (Client store_reconciler)
                              (cp (start (sample_store serves_all)))))))"
      by blast
    from this s
    have d: "filter (\<lambda>x. is_delete (fst x)) tr = [(Delete (stored_nc ''n1''), None)]"
      by (rule trans)
    from e t' f w' d show ?thesis by blast
  qed
qed

subsection \<open>The calls of a reconciliation pass\<close>

lemma updateStatus_calls:
  "\<exists>x. calls (updateStatus r c status reason st) =
     calls st @
     [(Status_Update (c\<lparr>cc_Status := \<lparr>SyncStatus = status, LastSyncError = reason\<rparr>\<rparr>), x)]"
proof -
  let ?obj = "c\<lparr>cc_Status := \<lparr>SyncStatus = status, LastSyncError = reason\<rparr>\<rparr>"
  obtain e st1 where u: "r_StatusUpdate r ?obj st = (e, st1)"
    by (cases "r_StatusUpdate r ?obj st")
  from r_StatusUpdate_calls [OF u] u show ?thesis
    by (cases e) (auto simp: updateStatus_def)
qed

lemma renderNodeConfigs_calls: "calls (snd (renderNodeConfigs c items st)) = calls st"
  by (simp add: renderNodeConfigs_def Let_def case_prod_beta logr_def)

text \<open>
  The calls of a reconciliation pass: either none of them creates, updates or deletes a node
  configuration, or the pass ran \<^verbatim>\<open>syncNodeConfigs\<close>, returned its error and then wrote the
  status that goes with it.
\<close>

lemma Reconcile_calls:
  assumes "Reconcile r req st = (res, st')"
  shows "(\<exists>tr. calls st' = calls st @ tr \<and> (\<forall>x \<in> set tr. \<not> is_sync_call (fst x)))
       \<or> (\<exists>cc pre objs st5 err st6 x.
            calls st5 = calls st @ pre
          \<and> (\<forall>x \<in> set pre. \<not> is_sync_call (fst x))
          \<and> syncNodeConfigs r objs st5 = (err, st6)
          \<and> res = Inr err
          \<and> calls st' = calls st6 @
              [(Status_Update
                  (cc\<lparr>cc_Status :=
                        \<lparr>SyncStatus =
                           (if err = None then ''NodeConfigsCreated''
                            else ''NodeConfigsCreationFailed''),
                         LastSyncError =
                           (if err = None then []
                            else ''failed to create NodeConfigs - check logs'')\<rparr>\<rparr>), x)])"
    (is "?quiet \<or> ?synced")
proof -
  let ?st0 = "logr (LogInfo ''Reconciling SriovFecClusterConfig'' []) st"
  obtain res1 st1 where g: "r_GetClusterConfig r req ?st0 = (res1, st1)"
    by (cases "r_GetClusterConfig r req ?st0")
  from r_GetClusterConfig_calls [OF g]
  have c1: "calls st1 = calls st @ [(Get_ClusterConfig req, err_of res1)]" by simp
  have su: "\<exists>tr. calls (updateStatus r c status reason stx) = calls st @ tr
                \<and> (\<forall>x \<in> set tr. \<not> is_sync_call (fst x))"
    if "calls stx = calls st1" for stx c status reason
  proof -
    from updateStatus_calls [of r c status reason stx] that c1 obtain x where
      "calls (updateStatus r c status reason stx) = calls st @
         [(Get_ClusterConfig req, err_of res1),
          (Status_Update (c\<lparr>cc_Status := \<lparr>SyncStatus = status, LastSyncError = reason\<rparr>\<rparr>), x)]"
      by auto
    then show ?thesis by (auto simp: is_sync_call_def)
  qed
  show ?thesis
  proof (cases res1)
    case (Inl err)
    with assms g have "calls st' = calls st1"
      by (auto simp: Reconcile_def Let_def split: if_splits)
    with c1 show ?thesis by (auto simp: is_sync_call_def)
  next
    case (Inr cc)
    let ?nodes = "Nodes (cc_Spec cc)"
    let ?ignored = "nn_Namespace req \<noteq> NAMESPACE r \<or> nn_Name req \<noteq> DEFAULT_CLUSTER_CONFIG_NAME"
    let ?invalid = "(OneNodeConfigForAll (cc_Spec cc) \<and> length ?nodes \<noteq> 1)
                    \<or> (OneNodeConfigForAll (cc_Spec cc) \<and> \<not> OneCardConfigForAll (?nodes ! 0))
                    \<or> first_bad_node ?nodes 0 \<noteq> None"
    show ?thesis
    proof (cases "?ignored \<or> ?invalid")
      case True
      with assms g Inr have ?quiet
        by (auto simp: Reconcile_def Let_def split: if_splits option.splits intro!: su)
      then show ?thesis ..
    next
      case False
      let ?st2 = "logr (LogInfo ''is one config for all nodes requested?''
                          [(''oneNodeConfigForAll'', B (OneNodeConfigForAll (cc_Spec cc))),
                           (''amount of node configs'', I (of_nat (length ?nodes)))]) st1"
      obtain res3 st3 where n: "getNodesWithIntelAccelerator r ?st2 = (res3, st3)"
        by (cases "getNodesWithIntelAccelerator r ?st2")
      from r_ListNodes_calls [of r labelsToMatch ?st2 res3 st3] n
      have c3: "calls st3 = calls st1 @ [(List_Nodes labelsToMatch, err_of res3)]"
        by (simp add: getNodesWithIntelAccelerator_def)
      from False have fb: "first_bad_node ?nodes 0 = None" by simp
      show ?thesis
      proof (cases res3)
        case (Inl err)
        let ?st3' = "logr (LogError err ''failed to obtain nodes with Intel accelerator'' []) st3"
        from assms g Inr False fb n Inl
        have s: "st' = updateStatus r cc ''NfdFailure''
                   ''failed to obtain nodes with Intel accelerator - check logs'' ?st3'"
          by (cases "OneNodeConfigForAll (cc_Spec cc)") (simp_all add: Reconcile_def Let_def)
        from updateStatus_calls [of r cc _ _ ?st3'] s c3 c1 obtain x where
          "calls st' = calls st @
             [(Get_ClusterConfig req, err_of res1), (List_Nodes labelsToMatch, err_of res3),
              (Status_Update (cc\<lparr>cc_Status := \<lparr>SyncStatus = ''NfdFailure'',
                 LastSyncError = ''failed to obtain nodes with Intel accelerator - check logs''\<rparr>\<rparr>), x)]"
          by auto
        then show ?thesis by (auto simp: is_sync_call_def)
      next
        case (Inr nodeList)
        let ?st4 = "logr (LogInfo ''nodes with intel accelerator''
                            [(''nodes'', L (map node_Name nodeList))]) st3"
        obtain rres st5 where rn: "renderNodeConfigs cc nodeList ?st4 = (rres, st5)"
          by (cases "renderNodeConfigs cc nodeList ?st4")
        from renderNodeConfigs_calls [of cc nodeList ?st4] rn
        have c5: "calls st5 = calls st @
                    [(Get_ClusterConfig req, err_of res1), (List_Nodes labelsToMatch, err_of res3)]"
          using c3 c1 by simp
        show ?thesis
        proof (cases rres)
          case (Inl p)
          with assms g \<open>res1 = Inr cc\<close> False fb n \<open>res3 = Inr nodeList\<close> rn
          have "st' = st5"
            by (cases "OneNodeConfigForAll (cc_Spec cc)") (simp_all add: Reconcile_def Let_def)
          with c5 show ?thesis by (auto simp: is_sync_call_def)
        next
          case (Inr objs)
          obtain err st6 where sy: "syncNodeConfigs r objs st5 = (err, st6)"
            by (cases "syncNodeConfigs r objs st5")
          let ?status = "if err = None then ''NodeConfigsCreated''
                         else ''NodeConfigsCreationFailed''"
          let ?reason = "if err = None then []
                         else ''failed to create NodeConfigs - check logs''"
          let ?stx = "case err of None \<Rightarrow> st6
                      | Some a \<Rightarrow> logr (LogError a ''syncNodeConfigs failed'' []) st6"
          from assms g \<open>res1 = Inr cc\<close> False fb n \<open>res3 = Inr nodeList\<close> rn Inr sy
          have "res = Inr err \<and> st' = updateStatus r cc ?status ?reason ?stx"
            by (cases err; cases "OneNodeConfigForAll (cc_Spec cc)")
               (simp_all add: Reconcile_def Let_def)
          moreover have "calls ?stx = calls st6"
            by (cases err) simp_all
          ultimately obtain stx where r: "res = Inr err" "calls stx = calls st6"
            "st' = updateStatus r cc ?status ?reason stx" by blast
          from updateStatus_calls [of r cc ?status ?reason stx] r obtain x where
            "calls st' = calls st6 @
               [(Status_Update (cc\<lparr>cc_Status := \<lparr>SyncStatus = ?status,
                                                   LastSyncError = ?reason\<rparr>\<rparr>), x)]"
            by auto
          with c5 sy r(1) have ?synced
            by (intro exI [of _ cc] exI [of _ "[(Get_ClusterConfig req, err_of res1),
                  (List_Nodes labelsToMatch, err_of res3)]"] exI [of _ objs] exI [of _ st5]
                  exI [of _ err] exI [of _ st6] exI [of _ x])
               (simp add: is_sync_call_def)
          then show ?thesis ..
        qed
      qed
    qed
  qed
qed

text \<open>
  Rendering panics only when \<^verbatim>\<open>OneNodeConfigForAll\<close> is set and \<^verbatim>\<open>Spec.Nodes\<close> is empty.
  \<^verbatim>\<open>Reconcile\<close> renders only after it has checked that \<^verbatim>\<open>Spec.Nodes\<close> has one entry in that
  mode, so a reconciliation pass never panics.
\<close>

lemma renderNodeConfigs_no_panic:
  assumes "OneNodeConfigForAll (cc_Spec c) \<longrightarrow> Nodes (cc_Spec c) \<noteq> []"
  shows "fst (renderNodeConfigs c items st) \<noteq> Inl p"
proof (cases "OneNodeConfigForAll (cc_Spec c)")
  case False
  from renderNodeConfigs_per_node [OF False, of items st] show ?thesis by simp
next
  case True
  with assms obtain n0 ns where "Nodes (cc_Spec c) = n0 # ns"
    by (cases "Nodes (cc_Spec c)") auto
  from renderNodeConfigs_for_all [OF True this, of items st] show ?thesis by simp
qed

lemma renderNodeConfigs_panicD:
  assumes "renderNodeConfigs c items st = (Inl p, st')"
  shows "OneNodeConfigForAll (cc_Spec c) \<and> Nodes (cc_Spec c) = []"
proof (rule ccontr)
  assume "\<not> (OneNodeConfigForAll (cc_Spec c) \<and> Nodes (cc_Spec c) = [])"
  then have "OneNodeConfigForAll (cc_Spec c) \<longrightarrow> Nodes (cc_Spec c) \<noteq> []" by blast
  from renderNodeConfigs_no_panic [OF this, of items st p] assms show False by simp
qed

lemma Reconcile_no_panic: "fst (Reconcile r req st) \<noteq> Inl p"
  by (auto simp: Reconcile_def Let_def
        split: prod.splits sum.splits option.splits if_splits
        dest!: renderNodeConfigs_panicD)

text \<open>
  C3, as the claim states it, fails: on the sample control plane, which refuses to delete,
  the pass returns the error of the refused deletion and the stored status of the cluster
  configuration, empty before the pass, is \<^verbatim>\<open>NodeConfigsCreationFailed\<close> after it.
\<close>

theorem status_written_counterexample:
  "fst (Reconcile store_reconciler the_request (start (sample_store no_delete))) =
     Inr (Some (ApiError ''delete refused''))
   \<and> (Delete (stored_nc ''n1''), Some (ApiError ''delete refused'')) \<in>
       set (calls (snd (Reconcile store_reconciler the_request (start (sample_store no_delete)))))
   \<and> map cc_Status (clusterConfigs (sample_store no_delete)) =
       [\<lparr>SyncStatus = '''', LastSyncError = ''''\<rparr>]
   \<and> map cc_Status
       (clusterConfigs
          (cp (snd (Reconcile store_reconciler the_request (start (sample_store no_delete)))))) =
       [\<lparr>SyncStatus = ''NodeConfigsCreationFailed'',
         LastSyncError = ''failed to create NodeConfigs - check logs''\<rparr>]"
  by code_simp

text \<open>
  C3, amended: for every reconciliation pass in which a create, update or delete call for a
  node configuration fails, the pass returns the error of that call to the caller, and the
  last call of the pass writes the status of the cluster configuration:
  \<^verbatim>\<open>NodeConfigsCreationFailed\<close>, with the message that points to the logs.
\<close>

theorem sync_failure_reported:
  assumes "Reconcile r req st = (res, st')"
      and "(c, Some e) \<in> set (drop (length (calls st)) (calls st'))"
      and "is_sync_call c"
  shows "res = Inr (Some e)
       \<and> (\<exists>cc x. last (calls st') = (Status_Update cc, x)
              \<and> cc_Status cc =
                   \<lparr>SyncStatus = ''NodeConfigsCreationFailed'',
                    LastSyncError = ''failed to create NodeConfigs - check logs''\<rparr>)"
proof -
  from Reconcile_calls [OF assms(1)] show ?thesis
  proof
    assume "\<exists>tr. calls st' = calls st @ tr \<and> (\<forall>x \<in> set tr. \<not> is_sync_call (fst x))"
    with assms(2,3) show ?thesis by force
  next
    assume "\<exists>cc pre objs st5 err st6 x.
            calls st5 = calls st @ pre
          \<and> (\<forall>x \<in> set pre. \<not> is_sync_call (fst x))
          \<and> syncNodeConfigs r objs st5 = (err, st6)
          \<and> res = Inr err
          \<and> calls st' = calls st6 @
              [(Status_Update
                  (cc\<lparr>cc_Status :=
                        \<lparr>SyncStatus =
                           (if err = None then ''NodeConfigsCreated''
                            else ''NodeConfigsCreationFailed''),
                         LastSyncError =
                           (if err = None then []
                            else ''failed to create NodeConfigs - check logs'')\<rparr>\<rparr>), x)]"
    then obtain cc pre objs st5 err st6 x where s:
      "calls st5 = calls st @ pre" "\<forall>x \<in> set pre. \<not> is_sync_call (fst x)"
      "syncNodeConfigs r objs st5 = (err, st6)" "res = Inr err"
      "calls st' = calls st6 @
              [(Status_Update
                  (cc\<lparr>cc_Status :=
                        \<lparr>SyncStatus =
                           (if err = None then ''NodeConfigsCreated''
                            else ''NodeConfigsCreationFailed''),
                         LastSyncError =
                           (if err = None then []
                            else ''failed to create NodeConfigs - check logs'')\<rparr>\<rparr>), x)]"
      by blast
    from syncNodeConfigs_calls [OF s(3)] obtain e0 ds us where t:
      "calls st6 = calls st5 @ (List_NodeConfigs, e0) # ds @ us"
      "\<forall>c e. (c, Some e) \<in> set ds \<longrightarrow> err = Some e \<and> us = []"
      "\<forall>c e. (c, Some e) \<in> set us \<and> is_write c \<longrightarrow> err = Some e"
      "\<forall>x \<in> set us. \<not> is_delete (fst x)"
      by blast
    have "drop (length (calls st)) (calls st') =
            pre @ (List_NodeConfigs, e0) # ds @ us @
            [(Status_Update
                  (cc\<lparr>cc_Status :=
                        \<lparr>SyncStatus =
                           (if err = None then ''NodeConfigsCreated''
                            else ''NodeConfigsCreationFailed''),
                         LastSyncError =
                           (if err = None then []
                            else ''failed to create NodeConfigs - check logs'')\<rparr>\<rparr>), x)]"
      using s(1,5) t(1) by simp
    with assms(2,3) s(2) have "(c, Some e) \<in> set ds \<or> (c, Some e) \<in> set us"
      by (auto simp: is_sync_call_def)
    with t(2,3,4) assms(3) have "err = Some e"
      by (auto simp: is_sync_call_def)
    with s(4,5) show ?thesis by simp
  qed
qed

theorem sync_failure_reported_witness:
  "(Delete (stored_nc ''n1''), Some (ApiError ''delete refused'')) \<in>
     set (drop (length (calls (start (sample_store no_delete))))
            (calls (snd (Reconcile store_reconciler the_request
                           (start (sample_store no_delete))))))
   \<and> fst (Reconcile store_reconciler the_request (start (sample_store no_delete))) =
       Inr (Some (ApiError ''delete refused''))
   \<and> (\<exists>cc x. last (calls (snd (Reconcile store_reconciler the_request
                                   (start (sample_store no_delete))))) = (Status_Update cc, x)
          \<and> cc_Status cc =
               \<lparr>SyncStatus = ''NodeConfigsCreationFailed'',
                LastSyncError = ''failed to create NodeConfigs - check logs''\<rparr>)"
proof -
  have m: "(Delete (stored_nc ''n1''), Some (ApiError ''delete refused'')) \<in>
     set (drop (length (calls (start (sample_store no_delete))))
            (calls (snd (Reconcile store_reconciler the_request
                           (start (sample_store no_delete))))))"
    by code_simp
  have d: "is_sync_call (Delete (stored_nc ''n1''))"
    by (simp add: is_sync_call_def)
  from m sync_failure_reported [OF prod.collapse [symmetric] m d] show ?thesis ..
qed

end
